theory Spec2Isabelle
  imports Complex_Main
begin

chapter \<open>STL Comparinator: mesh normalisation and comparison metrics\<close>

text \<open>
  A shallow embedding of \<^verbatim>\<open>src/compare.js\<close> (the metrics) and of the model-handling
  half of \<^verbatim>\<open>src/viewer.js\<close> (loading, centring, scale matching, quarter-turn
  re-orientation), together with the parts of the three.js library those functions call
  (\<^verbatim>\<open>Vector3\<close>, \<^verbatim>\<open>Matrix4\<close>, \<^verbatim>\<open>Box3\<close>, \<^verbatim>\<open>BufferGeometry\<close>).
\<close>

section \<open>JavaScript numbers\<close>

text \<open>
  A JavaScript number is modelled as a real number or one of the three special values
  \<^verbatim>\<open>Infinity\<close>, \<^verbatim>\<open>-Infinity\<close> and \<^verbatim>\<open>NaN\<close>. The special values are kept because the
  code produces them itself: \<^verbatim>\<open>percentDifference\<close> returns \<^verbatim>\<open>Infinity\<close>, an empty
  \<^verbatim>\<open>Box3\<close> has infinite corners, and a read past the end of a buffer gives
  \<^verbatim>\<open>undefined\<close>, which arithmetic turns into \<^verbatim>\<open>NaN\<close>. Finite values are exact reals:
  rounding and the sign of zero are not modelled.
\<close>

datatype jsnum = Num real | Infinity | MinusInfinity | NaN

fun js_neg :: "jsnum \<Rightarrow> jsnum" where
  "js_neg (Num a) = Num (- a)"
| "js_neg Infinity = MinusInfinity"
| "js_neg MinusInfinity = Infinity"
| "js_neg NaN = NaN"

fun js_add :: "jsnum \<Rightarrow> jsnum \<Rightarrow> jsnum" where
  "js_add (Num a) (Num b) = Num (a + b)"
| "js_add NaN _ = NaN"
| "js_add _ NaN = NaN"
| "js_add Infinity MinusInfinity = NaN"
| "js_add MinusInfinity Infinity = NaN"
| "js_add Infinity _ = Infinity"
| "js_add _ Infinity = Infinity"
| "js_add MinusInfinity _ = MinusInfinity"
| "js_add _ MinusInfinity = MinusInfinity"

definition js_sub :: "jsnum \<Rightarrow> jsnum \<Rightarrow> jsnum" where
  "js_sub a b = js_add a (js_neg b)"

text \<open>The sign of an infinite product or quotient: \<open>inf_signed pos\<close>.\<close>

definition inf_signed :: "bool \<Rightarrow> jsnum" where
  "inf_signed pos = (if pos then Infinity else MinusInfinity)"

fun js_mul :: "jsnum \<Rightarrow> jsnum \<Rightarrow> jsnum" where
  "js_mul (Num a) (Num b) = Num (a * b)"
| "js_mul NaN _ = NaN"
| "js_mul _ NaN = NaN"
| "js_mul (Num a) Infinity = (if a = 0 then NaN else inf_signed (0 < a))"
| "js_mul (Num a) MinusInfinity = (if a = 0 then NaN else inf_signed (a < 0))"
| "js_mul Infinity (Num b) = (if b = 0 then NaN else inf_signed (0 < b))"
| "js_mul MinusInfinity (Num b) = (if b = 0 then NaN else inf_signed (b < 0))"
| "js_mul Infinity Infinity = Infinity"
| "js_mul MinusInfinity MinusInfinity = Infinity"
| "js_mul Infinity MinusInfinity = MinusInfinity"
| "js_mul MinusInfinity Infinity = MinusInfinity"

text \<open>
  Division: a finite nonzero value divided by zero is infinite, \<^verbatim>\<open>0 / 0\<close> is \<^verbatim>\<open>NaN\<close>.
  The zero divisor is taken to be \<^verbatim>\<open>+0\<close>.
\<close>

fun js_div :: "jsnum \<Rightarrow> jsnum \<Rightarrow> jsnum" where
  "js_div (Num a) (Num b) =
     (if b = 0 then (if a = 0 then NaN else inf_signed (0 < a)) else Num (a / b))"
| "js_div NaN _ = NaN"
| "js_div _ NaN = NaN"
| "js_div (Num a) Infinity = Num 0"
| "js_div (Num a) MinusInfinity = Num 0"
| "js_div Infinity (Num b) = inf_signed (0 \<le> b)"
| "js_div MinusInfinity (Num b) = inf_signed (b < 0)"
| "js_div _ _ = NaN"

text \<open>The comparison \<^verbatim>\<open>a < b\<close>: false as soon as one side is \<^verbatim>\<open>NaN\<close>.\<close>

fun js_lt :: "jsnum \<Rightarrow> jsnum \<Rightarrow> bool" where
  "js_lt (Num a) (Num b) = (a < b)"
| "js_lt NaN _ = False"
| "js_lt _ NaN = False"
| "js_lt _ MinusInfinity = False"
| "js_lt Infinity _ = False"
| "js_lt MinusInfinity _ = True"
| "js_lt _ Infinity = True"

definition js_gt :: "jsnum \<Rightarrow> jsnum \<Rightarrow> bool" where
  "js_gt a b = js_lt b a"

text \<open>\<^verbatim>\<open>Math.min\<close>, \<^verbatim>\<open>Math.max\<close> (\<^verbatim>\<open>NaN\<close> if an argument is) and \<^verbatim>\<open>Math.abs\<close>.\<close>

definition js_min :: "jsnum \<Rightarrow> jsnum \<Rightarrow> jsnum" where
  "js_min a b = (if a = NaN \<or> b = NaN then NaN else if js_lt b a then b else a)"

definition js_max :: "jsnum \<Rightarrow> jsnum \<Rightarrow> jsnum" where
  "js_max a b = (if a = NaN \<or> b = NaN then NaN else if js_lt a b then b else a)"

definition js_max3 :: "jsnum \<Rightarrow> jsnum \<Rightarrow> jsnum \<Rightarrow> jsnum" where
  "js_max3 a b c = js_max (js_max a b) c"

fun js_abs :: "jsnum \<Rightarrow> jsnum" where
  "js_abs (Num a) = Num \<bar>a\<bar>"
| "js_abs Infinity = Infinity"
| "js_abs MinusInfinity = Infinity"
| "js_abs NaN = NaN"

section \<open>three.js: \<^verbatim>\<open>Vector3\<close>\<close>

datatype vec3 = Vector3 (vx: jsnum) (vy: jsnum) (vz: jsnum)

definition subVectors :: "vec3 \<Rightarrow> vec3 \<Rightarrow> vec3" where
  "subVectors a b =
     Vector3 (js_sub (vx a) (vx b)) (js_sub (vy a) (vy b)) (js_sub (vz a) (vz b))"

definition addVectors :: "vec3 \<Rightarrow> vec3 \<Rightarrow> vec3" where
  "addVectors a b =
     Vector3 (js_add (vx a) (vx b)) (js_add (vy a) (vy b)) (js_add (vz a) (vz b))"

definition multiplyScalar :: "vec3 \<Rightarrow> jsnum \<Rightarrow> vec3" where
  "multiplyScalar v s = Vector3 (js_mul (vx v) s) (js_mul (vy v) s) (js_mul (vz v) s)"

definition vec_min :: "vec3 \<Rightarrow> vec3 \<Rightarrow> vec3" where
  "vec_min a v = Vector3 (js_min (vx a) (vx v)) (js_min (vy a) (vy v)) (js_min (vz a) (vz v))"

definition vec_max :: "vec3 \<Rightarrow> vec3 \<Rightarrow> vec3" where
  "vec_max a v = Vector3 (js_max (vx a) (vx v)) (js_max (vy a) (vy v)) (js_max (vz a) (vz v))"

text \<open>\<^verbatim>\<open>a.dot(v)\<close> and \<^verbatim>\<open>a.cross(v)\<close> (\<^verbatim>\<open>crossVectors(a, v)\<close>).\<close>

definition dot :: "vec3 \<Rightarrow> vec3 \<Rightarrow> jsnum" where
  "dot a v =
     js_add (js_add (js_mul (vx a) (vx v)) (js_mul (vy a) (vy v))) (js_mul (vz a) (vz v))"

definition cross :: "vec3 \<Rightarrow> vec3 \<Rightarrow> vec3" where
  "cross a b =
     Vector3 (js_sub (js_mul (vy a) (vz b)) (js_mul (vz a) (vy b)))
             (js_sub (js_mul (vz a) (vx b)) (js_mul (vx a) (vz b)))
             (js_sub (js_mul (vx a) (vy b)) (js_mul (vy a) (vx b)))"

section \<open>three.js: buffer attributes and geometries\<close>

text \<open>
  A position attribute is the list of its vertices (\<^verbatim>\<open>count\<close> is the list's length).
  \<^verbatim>\<open>fromBufferAttribute(attribute, i)\<close> reads vertex \<open>i\<close>; past the end the typed array
  yields \<^verbatim>\<open>undefined\<close> for each component, which every later arithmetic operation
  treats as \<^verbatim>\<open>NaN\<close>.
\<close>

definition fromBufferAttribute :: "vec3 list \<Rightarrow> nat \<Rightarrow> vec3" where
  "fromBufferAttribute attribute i =
     (if i < length attribute then attribute ! i else Vector3 NaN NaN NaN)"

text \<open>
  A \<^verbatim>\<open>BufferGeometry\<close>, reduced to the one attribute the code reads:
  \<^verbatim>\<open>getAttribute('position')\<close> is \<open>None\<close> when the geometry has no such attribute.
\<close>

record geometry =
  position :: "vec3 list option"

section \<open>three.js: \<^verbatim>\<open>Box3\<close>\<close>

record box3 =
  box_min :: vec3
  box_max :: vec3

definition makeEmpty :: box3 where
  "makeEmpty = \<lparr>box_min = Vector3 Infinity Infinity Infinity,
                box_max = Vector3 MinusInfinity MinusInfinity MinusInfinity\<rparr>"

definition expandByPoint :: "box3 \<Rightarrow> vec3 \<Rightarrow> box3" where
  "expandByPoint b p = \<lparr>box_min = vec_min (box_min b) p, box_max = vec_max (box_max b) p\<rparr>"

text \<open>\<^verbatim>\<open>setFromBufferAttribute\<close>: start empty, expand by every vertex in order.\<close>

definition setFromBufferAttribute :: "vec3 list \<Rightarrow> box3" where
  "setFromBufferAttribute attribute = foldl expandByPoint makeEmpty attribute"

definition isEmpty :: "box3 \<Rightarrow> bool" where
  "isEmpty b \<longleftrightarrow>
     js_lt (vx (box_max b)) (vx (box_min b)) \<or>
     js_lt (vy (box_max b)) (vy (box_min b)) \<or>
     js_lt (vz (box_max b)) (vz (box_min b))"

definition getSize :: "box3 \<Rightarrow> vec3" where
  "getSize b =
     (if isEmpty b then Vector3 (Num 0) (Num 0) (Num 0)
      else subVectors (box_max b) (box_min b))"

definition getCenter :: "box3 \<Rightarrow> vec3" where
  "getCenter b =
     (if isEmpty b then Vector3 (Num 0) (Num 0) (Num 0)
      else multiplyScalar (addVectors (box_min b) (box_max b)) (Num (1/2)))"

section \<open>\<^verbatim>\<open>compare.js\<close>\<close>

text \<open>
  Exceptions are values. \<^verbatim>\<open>TypeError\<close> is what the engine raises when a property of
  \<^verbatim>\<open>undefined\<close> is read; \<^verbatim>\<open>Error msg\<close> is \<^verbatim>\<open>throw new Error(msg)\<close>.
\<close>

datatype js_error = TypeError | Error string

record bounding_box =
  bb_box :: box3
  bb_size :: vec3
  bb_min :: vec3
  bb_max :: vec3

text \<open>
  \<^verbatim>\<open>computeBoundingBox\<close> hands \<^verbatim>\<open>geometry.getAttribute('position')\<close> to
  \<^verbatim>\<open>setFromBufferAttribute\<close> unchecked, which reads \<^verbatim>\<open>attribute.count\<close>: a geometry
  without the attribute raises \<^verbatim>\<open>TypeError\<close>.
\<close>

definition computeBoundingBox :: "geometry \<Rightarrow> js_error + bounding_box" where
  "computeBoundingBox g =
     (case position g of
        None \<Rightarrow> Inl TypeError
      | Some attribute \<Rightarrow>
          (let box = setFromBufferAttribute attribute;
               size = getSize box
           in Inr \<lparr>bb_box = box, bb_size = size, bb_min = box_min box, bb_max = box_max box\<rparr>))"

definition computeTriangleCount :: "geometry \<Rightarrow> jsnum" where
  "computeTriangleCount g =
     (case position g of
        None \<Rightarrow> Num 0
      | Some attribute \<Rightarrow> js_div (Num (real (length attribute))) (Num 3))"

text \<open>
  The loop of \<^verbatim>\<open>computeApproxVolume\<close>: \<open>i\<close> runs over \<open>0, 3, 6, \<dots>\<close> while
  \<open>i < position.count\<close>, and \<open>volume\<close> is the running signed total.
\<close>

function volume_loop :: "vec3 list \<Rightarrow> nat \<Rightarrow> jsnum \<Rightarrow> jsnum" where
  "volume_loop attribute i volume =
     (if i < length attribute then
        (let p1 = fromBufferAttribute attribute i;
             p2 = fromBufferAttribute attribute (i + 1);
             p3 = fromBufferAttribute attribute (i + 2)
         in volume_loop attribute (i + 3)
              (js_add volume (js_div (dot p1 (cross p2 p3)) (Num 6))))
      else volume)"
  by pat_completeness auto
termination
  by (relation "measure (\<lambda>(attribute, i, volume). length attribute - i)") auto

declare volume_loop.simps [simp del]

definition computeApproxVolume :: "geometry \<Rightarrow> jsnum" where
  "computeApproxVolume g =
     (case position g of
        None \<Rightarrow> Num 0
      | Some attribute \<Rightarrow>
          if length attribute < 3 then Num 0
          else js_abs (volume_loop attribute 0 (Num 0)))"

definition percentDifference :: "jsnum \<Rightarrow> jsnum \<Rightarrow> jsnum" where
  "percentDifference baseline student =
     (if baseline = Num 0 then (if student = Num 0 then Num 0 else Infinity)
      else js_mul (js_div (js_sub student baseline) baseline) (Num 100))"

text \<open>
  The report of \<^verbatim>\<open>compareModels\<close>: a baseline value, a student value and their percent
  difference for the triangle counts, the volumes and each of the three dimensions,
  and the two bounding boxes. The first statement that can raise is the bounding box of
  the baseline, then that of the student.
\<close>

record comparison =
  cmp_baseline :: jsnum
  cmp_student :: jsnum
  cmp_percentDifference :: jsnum

record box_pair =
  boxes_baseline :: bounding_box
  boxes_student :: bounding_box

record dimension_report =
  dim_x :: comparison
  dim_y :: comparison
  dim_z :: comparison

record report =
  boundingBoxes :: box_pair
  triangleCounts :: comparison
  volumes :: comparison
  dimensions :: dimension_report

definition compared :: "jsnum \<Rightarrow> jsnum \<Rightarrow> comparison" where
  "compared b c =
     \<lparr>cmp_baseline = b, cmp_student = c, cmp_percentDifference = percentDifference b c\<rparr>"

definition compareModels :: "geometry \<Rightarrow> geometry \<Rightarrow> js_error + report" where
  "compareModels baselineGeometry studentGeometry =
     (case computeBoundingBox baselineGeometry of
        Inl e \<Rightarrow> Inl e
      | Inr baselineBox \<Rightarrow>
         (case computeBoundingBox studentGeometry of
            Inl e \<Rightarrow> Inl e
          | Inr studentBox \<Rightarrow>
             (let baselineTriangles = computeTriangleCount baselineGeometry;
                  studentTriangles = computeTriangleCount studentGeometry;
                  baselineVolume = computeApproxVolume baselineGeometry;
                  studentVolume = computeApproxVolume studentGeometry
              in Inr
                 \<lparr>boundingBoxes =
                    \<lparr>boxes_baseline = baselineBox, boxes_student = studentBox\<rparr>,
                  triangleCounts = compared baselineTriangles studentTriangles,
                  volumes = compared baselineVolume studentVolume,
                  dimensions =
                    \<lparr>dim_x = compared (vx (bb_size baselineBox)) (vx (bb_size studentBox)),
                     dim_y = compared (vy (bb_size baselineBox)) (vy (bb_size studentBox)),
                     dim_z = compared (vz (bb_size baselineBox)) (vz (bb_size studentBox))\<rparr>\<rparr>)))"

section \<open>three.js: \<^verbatim>\<open>Matrix4\<close>\<close>

text \<open>
  The sixteen entries, named as in \<^verbatim>\<open>Matrix4.set(n11, n12, \<dots>, n44)\<close>: \<open>nij\<close> is row
  \<open>i\<close>, column \<open>j\<close>.
\<close>

record mat4 =
  n11 :: jsnum  n12 :: jsnum  n13 :: jsnum  n14 :: jsnum
  n21 :: jsnum  n22 :: jsnum  n23 :: jsnum  n24 :: jsnum
  n31 :: jsnum  n32 :: jsnum  n33 :: jsnum  n34 :: jsnum
  n41 :: jsnum  n42 :: jsnum  n43 :: jsnum  n44 :: jsnum

definition identity :: mat4 where
  "identity =
     \<lparr>n11 = Num 1, n12 = Num 0, n13 = Num 0, n14 = Num 0,
      n21 = Num 0, n22 = Num 1, n23 = Num 0, n24 = Num 0,
      n31 = Num 0, n32 = Num 0, n33 = Num 1, n34 = Num 0,
      n41 = Num 0, n42 = Num 0, n43 = Num 0, n44 = Num 1\<rparr>"

text \<open>\<^verbatim>\<open>makeRotationX(theta)\<close> and \<^verbatim>\<open>makeRotationY(theta)\<close>, with \<open>c = Math.cos(theta)\<close>
  and \<open>s = Math.sin(theta)\<close>.\<close>

definition makeRotationX :: "real \<Rightarrow> mat4" where
  "makeRotationX theta =
     (let c = cos theta; s = sin theta in
      \<lparr>n11 = Num 1, n12 = Num 0, n13 = Num 0, n14 = Num 0,
       n21 = Num 0, n22 = Num c, n23 = Num (- s), n24 = Num 0,
       n31 = Num 0, n32 = Num s, n33 = Num c, n34 = Num 0,
       n41 = Num 0, n42 = Num 0, n43 = Num 0, n44 = Num 1\<rparr>)"

definition makeRotationY :: "real \<Rightarrow> mat4" where
  "makeRotationY theta =
     (let c = cos theta; s = sin theta in
      \<lparr>n11 = Num c, n12 = Num 0, n13 = Num s, n14 = Num 0,
       n21 = Num 0, n22 = Num 1, n23 = Num 0, n24 = Num 0,
       n31 = Num (- s), n32 = Num 0, n33 = Num c, n34 = Num 0,
       n41 = Num 0, n42 = Num 0, n43 = Num 0, n44 = Num 1\<rparr>)"

definition makeTranslation :: "jsnum \<Rightarrow> jsnum \<Rightarrow> jsnum \<Rightarrow> mat4" where
  "makeTranslation tx ty tz =
     \<lparr>n11 = Num 1, n12 = Num 0, n13 = Num 0, n14 = tx,
      n21 = Num 0, n22 = Num 1, n23 = Num 0, n24 = ty,
      n31 = Num 0, n32 = Num 0, n33 = Num 1, n34 = tz,
      n41 = Num 0, n42 = Num 0, n43 = Num 0, n44 = Num 1\<rparr>"

definition makeScale :: "jsnum \<Rightarrow> jsnum \<Rightarrow> jsnum \<Rightarrow> mat4" where
  "makeScale sx sy sz =
     \<lparr>n11 = sx, n12 = Num 0, n13 = Num 0, n14 = Num 0,
      n21 = Num 0, n22 = sy, n23 = Num 0, n24 = Num 0,
      n31 = Num 0, n32 = Num 0, n33 = sz, n34 = Num 0,
      n41 = Num 0, n42 = Num 0, n43 = Num 0, n44 = Num 1\<rparr>"

text \<open>One entry of a product: \<^verbatim>\<open>a1 * b1 + a2 * b2 + a3 * b3 + a4 * b4\<close>, added left to right.\<close>

definition row_col :: "jsnum \<Rightarrow> jsnum \<Rightarrow> jsnum \<Rightarrow> jsnum \<Rightarrow> jsnum \<Rightarrow> jsnum \<Rightarrow> jsnum \<Rightarrow> jsnum \<Rightarrow> jsnum" where
  "row_col a1 a2 a3 a4 b1 b2 b3 b4 =
     js_add (js_add (js_add (js_mul a1 b1) (js_mul a2 b2)) (js_mul a3 b3)) (js_mul a4 b4)"

text \<open>\<^verbatim>\<open>a.multiply(b)\<close> is \<^verbatim>\<open>multiplyMatrices(a, b)\<close>: the matrix product \<open>a \<cdot> b\<close>.\<close>

definition multiplyMatrices :: "mat4 \<Rightarrow> mat4 \<Rightarrow> mat4" where
  "multiplyMatrices a b =
     \<lparr>n11 = row_col (n11 a) (n12 a) (n13 a) (n14 a) (n11 b) (n21 b) (n31 b) (n41 b),
      n12 = row_col (n11 a) (n12 a) (n13 a) (n14 a) (n12 b) (n22 b) (n32 b) (n42 b),
      n13 = row_col (n11 a) (n12 a) (n13 a) (n14 a) (n13 b) (n23 b) (n33 b) (n43 b),
      n14 = row_col (n11 a) (n12 a) (n13 a) (n14 a) (n14 b) (n24 b) (n34 b) (n44 b),
      n21 = row_col (n21 a) (n22 a) (n23 a) (n24 a) (n11 b) (n21 b) (n31 b) (n41 b),
      n22 = row_col (n21 a) (n22 a) (n23 a) (n24 a) (n12 b) (n22 b) (n32 b) (n42 b),
      n23 = row_col (n21 a) (n22 a) (n23 a) (n24 a) (n13 b) (n23 b) (n33 b) (n43 b),
      n24 = row_col (n21 a) (n22 a) (n23 a) (n24 a) (n14 b) (n24 b) (n34 b) (n44 b),
      n31 = row_col (n31 a) (n32 a) (n33 a) (n34 a) (n11 b) (n21 b) (n31 b) (n41 b),
      n32 = row_col (n31 a) (n32 a) (n33 a) (n34 a) (n12 b) (n22 b) (n32 b) (n42 b),
      n33 = row_col (n31 a) (n32 a) (n33 a) (n34 a) (n13 b) (n23 b) (n33 b) (n43 b),
      n34 = row_col (n31 a) (n32 a) (n33 a) (n34 a) (n14 b) (n24 b) (n34 b) (n44 b),
      n41 = row_col (n41 a) (n42 a) (n43 a) (n44 a) (n11 b) (n21 b) (n31 b) (n41 b),
      n42 = row_col (n41 a) (n42 a) (n43 a) (n44 a) (n12 b) (n22 b) (n32 b) (n42 b),
      n43 = row_col (n41 a) (n42 a) (n43 a) (n44 a) (n13 b) (n23 b) (n33 b) (n43 b),
      n44 = row_col (n41 a) (n42 a) (n43 a) (n44 a) (n14 b) (n24 b) (n34 b) (n44 b)\<rparr>"

text \<open>
  \<^verbatim>\<open>Vector3.applyMatrix4(m)\<close>: the vector as a point, with the perspective divide by
  \<open>w\<close>.
\<close>

definition applyMatrix4 :: "mat4 \<Rightarrow> vec3 \<Rightarrow> vec3" where
  "applyMatrix4 m v =
     (let w = js_div (Num 1)
                (js_add (js_add (js_add (js_mul (n41 m) (vx v)) (js_mul (n42 m) (vy v)))
                           (js_mul (n43 m) (vz v))) (n44 m))
      in Vector3
           (js_mul (js_add (js_add (js_add (js_mul (n11 m) (vx v)) (js_mul (n12 m) (vy v)))
                      (js_mul (n13 m) (vz v))) (n14 m)) w)
           (js_mul (js_add (js_add (js_add (js_mul (n21 m) (vx v)) (js_mul (n22 m) (vy v)))
                      (js_mul (n23 m) (vz v))) (n24 m)) w)
           (js_mul (js_add (js_add (js_add (js_mul (n31 m) (vx v)) (js_mul (n32 m) (vy v)))
                      (js_mul (n33 m) (vz v))) (n34 m)) w))"

section \<open>three.js: \<^verbatim>\<open>BufferGeometry\<close> methods\<close>

text \<open>
  Each method is given as the new value of the object it mutates. Only the position
  attribute is modelled; \<^verbatim>\<open>applyMatrix4\<close> transforms it when it is present.
  \<^verbatim>\<open>translate\<close> and \<^verbatim>\<open>scale\<close> build a matrix and apply it.
\<close>

definition geometry_applyMatrix4 :: "mat4 \<Rightarrow> geometry \<Rightarrow> geometry" where
  "geometry_applyMatrix4 m g = g\<lparr>position := map_option (map (applyMatrix4 m)) (position g)\<rparr>"

definition translate :: "jsnum \<Rightarrow> jsnum \<Rightarrow> jsnum \<Rightarrow> geometry \<Rightarrow> geometry" where
  "translate tx ty tz g = geometry_applyMatrix4 (makeTranslation tx ty tz) g"

definition scale :: "jsnum \<Rightarrow> jsnum \<Rightarrow> jsnum \<Rightarrow> geometry \<Rightarrow> geometry" where
  "scale sx sy sz g = geometry_applyMatrix4 (makeScale sx sy sz) g"

text \<open>\<^verbatim>\<open>geometry.computeBoundingBox()\<close>: the empty box when there is no position.\<close>

definition geometry_boundingBox :: "geometry \<Rightarrow> box3" where
  "geometry_boundingBox g =
     (case position g of None \<Rightarrow> makeEmpty | Some attribute \<Rightarrow> setFromBufferAttribute attribute)"

section \<open>\<^verbatim>\<open>viewer.js\<close>\<close>

definition centerGeometry :: "geometry \<Rightarrow> geometry" where
  "centerGeometry g =
     (let box = geometry_boundingBox g;
          center = getCenter box
      in translate (js_neg (vx center)) (js_neg (vy center)) (js_neg (vz center)) g)"

definition computeMaxDimension :: "geometry \<Rightarrow> js_error + jsnum" where
  "computeMaxDimension g =
     (case position g of
        None \<Rightarrow> Inl TypeError
      | Some attribute \<Rightarrow>
          (let box = setFromBufferAttribute attribute;
               size = getSize box
           in Inr (js_max3 (vx size) (vy size) (vz size))))"

text \<open>
  The module's variables. Geometries are objects: they live in a store (\<open>heap\<close>, a
  list indexed by address; a new object takes the next address) and the variables
  hold addresses, so that two references to one object and a copy of an object are
  told apart. A \<^verbatim>\<open>THREE.Mesh\<close> is its geometry reference and its local matrix. Of the
  rendering objects only the fact that \<^verbatim>\<open>scene\<close> has been created is kept: the scene's
  children, the camera, the renderer, the controls and the materials are never read by
  the functions below except to draw.
\<close>

type_synonym addr = nat

record mesh =
  mesh_geometry :: addr
  mesh_matrix :: mat4

record viewer =
  scene :: bool
  baselineMesh :: "mesh option"
  studentMesh :: "mesh option"
  baselineGeometry :: "addr option"
  studentGeometry :: "addr option"
  studentTransform :: mat4
  heap :: "geometry list"

text \<open>The module as loaded, and after \<^verbatim>\<open>initViewer\<close>.\<close>

definition module_loaded :: viewer where
  "module_loaded =
     \<lparr>scene = False, baselineMesh = None, studentMesh = None, baselineGeometry = None,
      studentGeometry = None, studentTransform = identity, heap = []\<rparr>"

definition initViewer :: "viewer \<Rightarrow> viewer" where
  "initViewer s = s\<lparr>scene := True\<rparr>"

text \<open>Mutating the object at an address, and creating a new object.\<close>

definition mutate :: "addr \<Rightarrow> (geometry \<Rightarrow> geometry) \<Rightarrow> geometry list \<Rightarrow> geometry list" where
  "mutate a f h = h[a := f (h ! a)]"

definition new_object :: "geometry \<Rightarrow> geometry list \<Rightarrow> geometry list \<times> addr" where
  "new_object g h = (h @ [g], length h)"

text \<open>
  \<^verbatim>\<open>loadBaseline\<close> and \<^verbatim>\<open>loadStudent\<close> are asynchronous: a \<^verbatim>\<open>throw\<close> in them rejects the
  promise they return, which is the \<open>Inl\<close> result here. \<open>loaded\<close> is the outcome of
  \<^verbatim>\<open>await loadGeometryFromSource(source)\<close>: an error, or a new geometry. The functions
  return the state they leave behind and their result, the address of the geometry.
\<close>

definition loadBaseline :: "viewer \<Rightarrow> js_error + geometry \<Rightarrow> viewer \<times> (js_error + addr)" where
  "loadBaseline s loaded =
     (if \<not> scene s then (s, Inl (Error ''Viewer not initialized.''))
      else case loaded of
        Inl e \<Rightarrow> (s, Inl e)
      | Inr g \<Rightarrow>
          (let (h1, a) = new_object g (heap s);
               h2 = mutate a centerGeometry h1
           in (s\<lparr>heap := h2,
                 baselineMesh := Some \<lparr>mesh_geometry = a, mesh_matrix = identity\<rparr>,
                 baselineGeometry := Some a\<rparr>,
               Inr a)))"

definition loadStudent :: "viewer \<Rightarrow> js_error + geometry \<Rightarrow> viewer \<times> (js_error + addr)" where
  "loadStudent s loaded =
     (if \<not> scene s then (s, Inl (Error ''Viewer not initialized.''))
      else case baselineGeometry s of
        None \<Rightarrow> (s, Inl (Error ''Load the baseline before loading a student model.''))
      | Some b \<Rightarrow>
         (case loaded of
            Inl e \<Rightarrow> (s, Inl e)
          | Inr g \<Rightarrow>
              (let (h1, a) = new_object g (heap s);
                   h2 = mutate a centerGeometry h1
               in case computeMaxDimension (h2 ! b) of
                    Inl e \<Rightarrow> (s\<lparr>heap := h2\<rparr>, Inl e)
                  | Inr baselineMax \<Rightarrow>
                     (case computeMaxDimension (h2 ! a) of
                        Inl e \<Rightarrow> (s\<lparr>heap := h2\<rparr>, Inl e)
                      | Inr studentMax \<Rightarrow>
                          (let scale_factor =
                                 (if js_gt studentMax (Num 0) then js_div baselineMax studentMax
                                  else Num 1);
                               h3 = mutate a (scale scale_factor scale_factor scale_factor) h2
                           in (s\<lparr>heap := h3,
                                 studentGeometry := Some a,
                                 studentTransform := identity,
                                 studentMesh := Some \<lparr>mesh_geometry = a, mesh_matrix = identity\<rparr>\<rparr>,
                               Inr a))))))"

text \<open>
  \<^verbatim>\<open>rotateStudent(axis, direction)\<close>. \<^verbatim>\<open>rotation.multiply(studentTransform)\<close> is
  \<open>rotation \<cdot> studentTransform\<close>; the result becomes the new \<^verbatim>\<open>studentTransform\<close> and is
  copied into the mesh's matrix.
\<close>

definition set_orientation :: "mat4 \<Rightarrow> viewer \<Rightarrow> viewer" where
  "set_orientation t s =
     s\<lparr>studentTransform := t,
       studentMesh := map_option (\<lambda>m. m\<lparr>mesh_matrix := t\<rparr>) (studentMesh s)\<rparr>"

definition rotateStudent :: "string \<Rightarrow> jsnum \<Rightarrow> viewer \<Rightarrow> viewer" where
  "rotateStudent axis direction s =
     (if studentMesh s = None \<or> studentGeometry s = None then s
      else
        (let angle = (if js_gt direction (Num 0) then pi / 2 else - pi / 2) in
         if axis = ''x'' then
           set_orientation (multiplyMatrices (makeRotationX angle) (studentTransform s)) s
         else if axis = ''y'' then
           set_orientation (multiplyMatrices (makeRotationY angle) (studentTransform s)) s
         else s))"

definition resetStudentOrientation :: "viewer \<Rightarrow> viewer" where
  "resetStudentOrientation s =
     (if studentMesh s = None then s else set_orientation identity s)"

text \<open>
  \<^verbatim>\<open>getNormalizedGeometries\<close>: \<^verbatim>\<open>studentGeometry.clone()\<close> is a new object with a copy of
  the attributes; \<^verbatim>\<open>applyMatrix4\<close> then mutates that new object.
\<close>

record normalized =
  baseline :: addr
  student :: addr

definition getNormalizedGeometries :: "viewer \<Rightarrow> viewer \<times> normalized option" where
  "getNormalizedGeometries s =
     (case (baselineGeometry s, studentGeometry s) of
        (Some b, Some a) \<Rightarrow>
          (let (h1, studentClone) = new_object (heap s ! a) (heap s);
               h2 = mutate studentClone (geometry_applyMatrix4 (studentTransform s)) h1
           in (s\<lparr>heap := h2\<rparr>, Some \<lparr>baseline = b, student = studentClone\<rparr>))
      | _ \<Rightarrow> (s, None))"

section \<open>Meshes with real coordinates\<close>

text \<open>
  The specification's mesh is a sequence of vertices with three real components each.
  \<open>real_mesh ps\<close> is the geometry whose position attribute holds exactly the points
  \<open>ps\<close>; the statements below about meshes are statements about \<open>real_mesh ps\<close> for
  every list \<open>ps\<close>.
\<close>

type_synonym point = "real \<times> real \<times> real"

fun vnum :: "point \<Rightarrow> vec3" where
  "vnum (a, b, c) = Vector3 (Num a) (Num b) (Num c)"

definition real_mesh :: "point list \<Rightarrow> geometry" where
  "real_mesh ps = \<lparr>position = Some (map vnum ps)\<rparr>"

text \<open>
  The specification's volume: the signed volume \<open>p1 \<cdot> (p2 \<times> p3) / 6\<close> of the tetrahedron
  a triangle spans with the origin, summed over the consecutive triangles of the mesh.
\<close>

definition signed_tetrahedron :: "point \<Rightarrow> point \<Rightarrow> point \<Rightarrow> real" where
  "signed_tetrahedron p1 p2 p3 =
     (case (p1, p2, p3) of ((x1, y1, z1), (x2, y2, z2), (x3, y3, z3)) \<Rightarrow>
        (x1 * (y2 * z3 - z2 * y3) + y1 * (z2 * x3 - x2 * z3) + z1 * (x2 * y3 - y2 * x3)) / 6)"

fun signed_total :: "point list \<Rightarrow> real" where
  "signed_total (p1 # p2 # p3 # ps) = signed_tetrahedron p1 p2 p3 + signed_total ps"
| "signed_total _ = 0"

text \<open>The same triangles with the opposite winding: the last two corners swapped.\<close>

fun reverse_winding :: "point list \<Rightarrow> point list" where
  "reverse_winding (p1 # p2 # p3 # ps) = p1 # p3 # p2 # reverse_winding ps"
| "reverse_winding ps = ps"

text \<open>
  The axis-aligned box over all vertices of a non-empty mesh: the least and the greatest
  coordinate on each axis, and their differences.
\<close>

fun px :: "point \<Rightarrow> real" where "px (a, b, c) = a"
fun py :: "point \<Rightarrow> real" where "py (a, b, c) = b"
fun pz :: "point \<Rightarrow> real" where "pz (a, b, c) = c"

definition lower_corner :: "point list \<Rightarrow> point" where
  "lower_corner ps = (Min (px ` set ps), Min (py ` set ps), Min (pz ` set ps))"

definition upper_corner :: "point list \<Rightarrow> point" where
  "upper_corner ps = (Max (px ` set ps), Max (py ` set ps), Max (pz ` set ps))"

definition extents :: "point list \<Rightarrow> point" where
  "extents ps =
     (Max (px ` set ps) - Min (px ` set ps),
      Max (py ` set ps) - Min (py ` set ps),
      Max (pz ` set ps) - Min (pz ` set ps))"

text \<open>Componentwise minimum and maximum of two points.\<close>

definition pmin :: "point \<Rightarrow> point \<Rightarrow> point" where
  "pmin p q = (min (px p) (px q), min (py p) (py q), min (pz p) (pz q))"

definition pmax :: "point \<Rightarrow> point \<Rightarrow> point" where
  "pmax p q = (max (px p) (px q), max (py p) (py q), max (pz p) (pz q))"

text \<open>
  Centring and uniform scaling as the specification words them: a mesh is centred by
  moving the midpoint of its bounding box to the origin, and scaled by multiplying every
  coordinate by one factor. \<open>max_extent\<close> is the largest of the three extents.
\<close>

definition translate_point :: "point \<Rightarrow> point \<Rightarrow> point" where
  "translate_point t p = (px p + px t, py p + py t, pz p + pz t)"

definition scale_point :: "real \<Rightarrow> point \<Rightarrow> point" where
  "scale_point k p = (k * px p, k * py p, k * pz p)"

definition center :: "point list \<Rightarrow> point" where
  "center ps =
     (if ps = [] then (0, 0, 0)
      else ((Min (px ` set ps) + Max (px ` set ps)) / 2,
            (Min (py ` set ps) + Max (py ` set ps)) / 2,
            (Min (pz ` set ps) + Max (pz ` set ps)) / 2))"

definition centered :: "point list \<Rightarrow> point list" where
  "centered ps =
     map (translate_point (- px (center ps), - py (center ps), - pz (center ps))) ps"

definition max_extent :: "point list \<Rightarrow> real" where
  "max_extent ps =
     (if ps = [] then 0
      else max (max (px (extents ps)) (py (extents ps))) (pz (extents ps)))"

section \<open>Quarter turns, finite matrices and sequences of orientation calls\<close>

text \<open>
  The rotation by \<open>d\<close> quarter turns (\<open>d = 1\<close>: \<open>+90\<degree>\<close>, \<open>d = - 1\<close>:
  \<open>-90\<degree>\<close>) about the X and about the Y axis, written out.
\<close>

definition quarter_turn_x :: "real \<Rightarrow> mat4" where
  "quarter_turn_x d =
     \<lparr>n11 = Num 1, n12 = Num 0, n13 = Num 0, n14 = Num 0,
      n21 = Num 0, n22 = Num 0, n23 = Num (- d), n24 = Num 0,
      n31 = Num 0, n32 = Num d, n33 = Num 0, n34 = Num 0,
      n41 = Num 0, n42 = Num 0, n43 = Num 0, n44 = Num 1\<rparr>"

definition quarter_turn_y :: "real \<Rightarrow> mat4" where
  "quarter_turn_y d =
     \<lparr>n11 = Num 0, n12 = Num 0, n13 = Num d, n14 = Num 0,
      n21 = Num 0, n22 = Num 1, n23 = Num 0, n24 = Num 0,
      n31 = Num (- d), n32 = Num 0, n33 = Num 0, n34 = Num 0,
      n41 = Num 0, n42 = Num 0, n43 = Num 0, n44 = Num 1\<rparr>"







text \<open>
  A matrix is finite when each of its entries is a real number.
\<close>

fun is_num :: "jsnum \<Rightarrow> bool" where
  "is_num (Num a) = True"
| "is_num _ = False"

definition finite_mat4 :: "mat4 \<Rightarrow> bool" where
  "finite_mat4 m \<longleftrightarrow>
     is_num (n11 m) \<and> is_num (n12 m) \<and> is_num (n13 m) \<and> is_num (n14 m) \<and>
     is_num (n21 m) \<and> is_num (n22 m) \<and> is_num (n23 m) \<and> is_num (n24 m) \<and>
     is_num (n31 m) \<and> is_num (n32 m) \<and> is_num (n33 m) \<and> is_num (n34 m) \<and>
     is_num (n41 m) \<and> is_num (n42 m) \<and> is_num (n43 m) \<and> is_num (n44 m)"

text \<open>
  A sequence of calls of the two orientation operations, run in order.
\<close>

datatype orientation_call = Rotate string jsnum | Reset

fun orient :: "orientation_call \<Rightarrow> viewer \<Rightarrow> viewer" where
  "orient (Rotate axis direction) s = rotateStudent axis direction s"
| "orient Reset s = resetStudentOrientation s"

definition orient_all :: "orientation_call list \<Rightarrow> viewer \<Rightarrow> viewer" where
  "orient_all calls s = fold orient calls s"

section \<open>The states the module can reach\<close>

text \<open>
  Every state of the module arises from the module as loaded by calls of its exported
  functions. Two facts hold in all of them and are used as hypotheses below: the
  orientation is a finite matrix, equal to the identity as long as no student mesh
  exists, and mirrored in the student mesh's matrix; and the stored references point at
  objects in the store.
\<close>

inductive reachable :: "viewer \<Rightarrow> bool" where
  reachable_loaded: "reachable module_loaded"
| reachable_init: "reachable s \<Longrightarrow> reachable (initViewer s)"
| reachable_baseline: "reachable s \<Longrightarrow> reachable (fst (loadBaseline s loaded))"
| reachable_student: "reachable s \<Longrightarrow> reachable (fst (loadStudent s loaded))"
| reachable_rotate: "reachable s \<Longrightarrow> reachable (rotateStudent axis direction s)"
| reachable_reset: "reachable s \<Longrightarrow> reachable (resetStudentOrientation s)"
| reachable_normalized: "reachable s \<Longrightarrow> reachable (fst (getNormalizedGeometries s))"

definition orientation_invariant :: "viewer \<Rightarrow> bool" where
  "orientation_invariant s \<longleftrightarrow>
     finite_mat4 (studentTransform s) \<and>
     (studentMesh s = None \<longrightarrow> studentTransform s = identity) \<and>
     (\<forall>m. studentMesh s = Some m \<longrightarrow> mesh_matrix m = studentTransform s)"

definition heap_invariant :: "viewer \<Rightarrow> bool" where
  "heap_invariant s \<longleftrightarrow>
     (\<forall>a. studentGeometry s = Some a \<longrightarrow> a < length (heap s)) \<and>
     (\<forall>b. baselineGeometry s = Some b \<longrightarrow> b < length (heap s))"

section \<open>Two example states\<close>

text \<open>
  \<open>example_baseline\<close>: the viewer after a triangle with corners \<open>(0,0,0)\<close>,
  \<open>(2,0,0)\<close>, \<open>(2,2,0)\<close> was loaded as the baseline. \<open>example_loaded\<close>: the same
  after the triangle \<open>(0,0,0)\<close>, \<open>(1,0,0)\<close>, \<open>(1,1/2,0)\<close> was loaded as the student
  model.
\<close>

definition example_baseline :: viewer where
  "example_baseline =
     \<lparr>scene = True,
      baselineMesh = Some \<lparr>mesh_geometry = 0, mesh_matrix = identity\<rparr>,
      studentMesh = None,
      baselineGeometry = Some 0,
      studentGeometry = None,
      studentTransform = identity,
      heap = [real_mesh [(- 1, - 1, 0), (1, - 1, 0), (1, 1, 0)]]\<rparr>"

definition example_loaded :: viewer where
  "example_loaded =
     \<lparr>scene = True,
      baselineMesh = Some \<lparr>mesh_geometry = 0, mesh_matrix = identity\<rparr>,
      studentMesh = Some \<lparr>mesh_geometry = 1, mesh_matrix = identity\<rparr>,
      baselineGeometry = Some 0,
      studentGeometry = Some 1,
      studentTransform = identity,
      heap = [real_mesh [(- 1, - 1, 0), (1, - 1, 0), (1, 1, 0)],
              real_mesh [(- 1, - (1 / 2), 0), (1, - (1 / 2), 0), (1, 1 / 2, 0)]]\<rparr>"

chapter \<open>Properties\<close>

section \<open>Percent difference\<close>

text \<open>
  Claim C1. On real inputs \<^verbatim>\<open>percentDifference(baseline, candidate)\<close> is \<open>0\<close> when both
  are \<open>0\<close>, \<^verbatim>\<open>Infinity\<close> when only the baseline is \<open>0\<close>, and
  \<open>(candidate - baseline) / baseline * 100\<close> otherwise; and
  \<^verbatim>\<open>percentDifference(x, x)\<close> is \<open>0\<close> for every real \<open>x\<close>, zero included.
\<close>

theorem percentDifference_cases:
  "percentDifference (Num b) (Num c) =
     (if b = 0 then (if c = 0 then Num 0 else Infinity) else Num ((c - b) / b * 100))
   \<and> percentDifference (Num x) (Num x) = Num 0"
  by (simp add: percentDifference_def js_sub_def)

section \<open>Approximate volume\<close>

lemma tet_step:
  "js_div (dot (vnum p1) (cross (vnum p2) (vnum p3))) (Num 6) = Num (signed_tetrahedron p1 p2 p3)"
  by (cases p1; cases p2; cases p3)
     (simp add: dot_def cross_def js_sub_def signed_tetrahedron_def)

lemma drop3:
  assumes "i + 3 \<le> length ps"
  shows "drop i ps = ps ! i # ps ! (i + 1) # ps ! (i + 2) # drop (i + 3) ps"
proof -
  have "drop i ps = ps ! i # drop (Suc i) ps"
    using assms by (simp add: Cons_nth_drop_Suc)
  also have "drop (Suc i) ps = ps ! (Suc i) # drop (Suc (Suc i)) ps"
    using assms by (simp add: Cons_nth_drop_Suc)
  also have "drop (Suc (Suc i)) ps = ps ! (Suc (Suc i)) # drop (Suc (Suc (Suc i))) ps"
    using assms by (simp add: Cons_nth_drop_Suc)
  finally show ?thesis by (simp add: numeral_3_eq_3 add.commute)
qed

text \<open>
  The loop invariant: started at a triangle boundary \<open>i\<close> with the running total
  \<open>acc\<close>, the loop ends with \<open>acc\<close> plus the signed volumes of the triangles from
  \<open>i\<close> on.
\<close>

lemma volume_loop_real:
  "i \<le> length ps \<Longrightarrow> (length ps - i) mod 3 = 0 \<Longrightarrow>
   volume_loop (map vnum ps) i (Num acc) = Num (acc + signed_total (drop i ps))"
proof (induction "length ps - i" arbitrary: i acc rule: less_induct)
  case less
  show ?case
  proof (cases "i < length ps")
    case False
    with less.prems have "i = length ps" by simp
    then show ?thesis by (subst volume_loop.simps) simp
  next
    case True
    with less.prems have len: "i + 3 \<le> length ps" by presburger
    let ?t = "signed_tetrahedron (ps ! i) (ps ! (i + 1)) (ps ! (i + 2))"
    have rd: "fromBufferAttribute (map vnum ps) i = vnum (ps ! i)"
      "fromBufferAttribute (map vnum ps) (Suc i) = vnum (ps ! Suc i)"
      "fromBufferAttribute (map vnum ps) (Suc (Suc i)) = vnum (ps ! Suc (Suc i))"
      using len by (simp_all add: fromBufferAttribute_def)
    have m: "(length ps - (i + 3)) mod 3 = 0"
      using less.prems(2) len by presburger
    have ih: "volume_loop (map vnum ps) (i + 3) (Num (acc + ?t))
              = Num (acc + ?t + signed_total (drop (i + 3) ps))"
      using less.hyps[of "i + 3"] len m True by simp
    have "volume_loop (map vnum ps) i (Num acc) = volume_loop (map vnum ps) (i + 3) (Num (acc + ?t))"
      using True
      by (subst volume_loop.simps)
         (simp add: rd tet_step Let_def)
    also note ih
    finally show ?thesis by (simp add: drop3[OF len])
  qed
qed

lemma volume_real_mesh:
  assumes "length ps mod 3 = 0"
  shows "computeApproxVolume (real_mesh ps) = Num \<bar>signed_total ps\<bar>"
proof (cases "length ps < 3")
  case True
  with assms have "ps = []" by (cases ps) auto
  then show ?thesis by (simp add: computeApproxVolume_def real_mesh_def)
next
  case False
  have "volume_loop (map vnum ps) 0 (Num 0) = Num (0 + signed_total (drop 0 ps))"
    using assms by (intro volume_loop_real) simp_all
  with False show ?thesis by (simp add: computeApproxVolume_def real_mesh_def)
qed

lemma volume_few_vertices:
  "length vs < 3 \<Longrightarrow> computeApproxVolume \<lparr>position = Some vs\<rparr> = Num 0"
  by (simp add: computeApproxVolume_def)

lemma signed_tetrahedron_swap: "signed_tetrahedron p1 p3 p2 = - signed_tetrahedron p1 p2 p3"
  by (cases p1; cases p2; cases p3) (simp add: signed_tetrahedron_def field_simps)

lemma signed_total_reverse: "signed_total (reverse_winding ps) = - signed_total ps"
proof (induction ps rule: reverse_winding.induct)
  case (1 p1 p2 p3 ps)
  then show ?case using signed_tetrahedron_swap[of p1 p3 p2] by simp
qed simp_all

lemma length_reverse_winding: "length (reverse_winding ps) = length ps"
  by (induction ps rule: reverse_winding.induct) simp_all

text \<open>
  A last round that starts inside the buffer with fewer than three vertices left reads
  a corner that does not exist; the term it adds is \<^verbatim>\<open>NaN\<close>, and so is the total.
\<close>

lemma js_nan_absorbs:
  "js_mul x NaN = NaN" "js_add x NaN = NaN" "js_sub x NaN = NaN" "js_sub NaN x = NaN"
  "js_div NaN x = NaN"
  by (cases x; simp add: js_sub_def)+

lemma tet_missing_corner:
  "js_div (dot p1 (cross p2 (Vector3 NaN NaN NaN))) (Num 6) = NaN"
  by (simp add: dot_def cross_def js_nan_absorbs)

lemma volume_loop_partial_triangle:
  "i < length vs \<Longrightarrow> (length vs - i) mod 3 \<noteq> 0 \<Longrightarrow> volume_loop vs i acc = NaN"
proof (induction "length vs - i" arbitrary: i acc rule: less_induct)
  case less
  show ?case
  proof (cases "i + 2 < length vs")
    case True
    with less.prems have lt: "i + 3 < length vs" by presburger
    have m: "(length vs - (i + 3)) mod 3 \<noteq> 0"
      using less.prems(2) lt by presburger
    have "volume_loop vs (i + 3) acc' = NaN" for acc'
      using less.hyps[of "i + 3" acc'] lt m by simp
    then show ?thesis
      using less.prems(1) by (subst volume_loop.simps) (simp add: Let_def)
  next
    case False
    then have p3: "fromBufferAttribute vs (i + 2) = Vector3 NaN NaN NaN"
      by (simp add: fromBufferAttribute_def)
    from False have e: "\<not> i + 3 < length vs" by simp
    have "volume_loop vs i acc = volume_loop vs (i + 3) NaN"
      using less.prems(1)
      by (subst volume_loop.simps)
         (simp only: p3 tet_missing_corner js_nan_absorbs Let_def if_True)
    also have "\<dots> = NaN"
      using e by (subst volume_loop.simps) simp
    finally show ?thesis .
  qed
qed

lemma volume_partial_triangle:
  assumes "3 \<le> length vs" "length vs mod 3 \<noteq> 0"
  shows "computeApproxVolume \<lparr>position = Some vs\<rparr> = NaN"
proof -
  from assms(1) have "0 < length vs" by (cases vs) simp_all
  then have "volume_loop vs 0 (Num 0) = NaN"
    using assms(2) by (intro volume_loop_partial_triangle) simp_all
  with assms(1) show ?thesis by (simp add: computeApproxVolume_def)
qed

text \<open>
  Claim C2, as the code has it. For every mesh whose vertex count is a multiple of 3
  \<^verbatim>\<open>computeApproxVolume\<close> returns the absolute value of the sum, over the consecutive
  triangles in order, of \<open>p1 \<cdot> (p2 \<times> p3) / 6\<close>; that result is a number \<open>\<ge> 0\<close> and
  does not change when the winding of the triangles is reversed. Fewer than 3 vertices,
  or no position attribute, give \<open>0\<close>. The vertex count is not validated: with 3 or
  more vertices and a count that is not a multiple of 3 the result is \<^verbatim>\<open>NaN\<close>.
\<close>

theorem computeApproxVolume_spec:
  "computeApproxVolume \<lparr>position = None\<rparr> = Num 0 \<and>
   (length vs < 3 \<longrightarrow> computeApproxVolume \<lparr>position = Some vs\<rparr> = Num 0) \<and>
   (length ps mod 3 = 0 \<longrightarrow>
      computeApproxVolume (real_mesh ps) = Num \<bar>signed_total ps\<bar> \<and>
      computeApproxVolume (real_mesh (reverse_winding ps)) = computeApproxVolume (real_mesh ps) \<and>
      (\<exists>v. computeApproxVolume (real_mesh ps) = Num v \<and> 0 \<le> v)) \<and>
   (3 \<le> length vs \<and> length vs mod 3 \<noteq> 0 \<longrightarrow>
      computeApproxVolume \<lparr>position = Some vs\<rparr> = NaN)"
  by (simp add: volume_few_vertices volume_real_mesh length_reverse_winding signed_total_reverse
      volume_partial_triangle)
     (simp add: computeApproxVolume_def)

theorem computeApproxVolume_spec_witness:
  "length [Vector3 (Num 1) (Num 2) (Num 3)] < 3 \<and>
   computeApproxVolume \<lparr>position = Some [Vector3 (Num 1) (Num 2) (Num 3)]\<rparr> = Num 0 \<and>
   length [(1, 0, 0), (0, 1, 0), (0, 0, 1::real)] mod 3 = 0 \<and>
   computeApproxVolume (real_mesh [(1, 0, 0), (0, 1, 0), (0, 0, 1)]) = Num (1 / 6) \<and>
   computeApproxVolume (real_mesh [(1, 0, 0), (0, 0, 1), (0, 1, 0)]) = Num (1 / 6) \<and>
   3 \<le> length (map vnum [(1, 0, 0), (0, 1, 0), (0, 0, 1), (5, 5, 5)]) \<and>
   length (map vnum [(1, 0, 0), (0, 1, 0), (0, 0, 1), (5, 5, 5)]) mod 3 \<noteq> 0 \<and>
   computeApproxVolume \<lparr>position = Some (map vnum [(1, 0, 0), (0, 1, 0), (0, 0, 1), (5, 5, 5)])\<rparr>
     = NaN"
  using computeApproxVolume_spec
          [of "[Vector3 (Num 1) (Num 2) (Num 3)]" "[(1, 0, 0), (0, 1, 0), (0, 0, 1)]"]
        computeApproxVolume_spec
          [of "map vnum [(1, 0, 0), (0, 1, 0), (0, 0, 1), (5, 5, 5)]" "[]"]
  by (simp add: signed_tetrahedron_def)

text \<open>
  Four vertices, one whole triangle and one vertex more: the second round reads two
  vertices that do not exist. The result is \<^verbatim>\<open>NaN\<close>: it is not a number \<open>\<ge> 0\<close>, and it
  is not the absolute signed volume of the one triangle.
\<close>

theorem computeApproxVolume_four_vertices:
  "computeApproxVolume (real_mesh [(1, 0, 0), (0, 1, 0), (0, 0, 1), (5, 5, 5)]) = NaN \<and>
   \<not> (\<exists>v. computeApproxVolume (real_mesh [(1, 0, 0), (0, 1, 0), (0, 0, 1), (5, 5, 5)]) = Num v
          \<and> 0 \<le> v) \<and>
   computeApproxVolume (real_mesh [(1, 0, 0), (0, 1, 0), (0, 0, 1), (5, 5, 5)])
     \<noteq> Num \<bar>signed_tetrahedron (1, 0, 0) (0, 1, 0) (0, 0, 1)\<bar>"
  by (simp add: computeApproxVolume_def real_mesh_def volume_loop.simps[of _ 0]
      volume_loop.simps[of _ 3] volume_loop.simps[of _ 6] fromBufferAttribute_def
      dot_def cross_def js_sub_def)

section \<open>Triangle count\<close>

text \<open>
  Claim C3, as the code has it. \<^verbatim>\<open>computeTriangleCount\<close> returns the vertex count
  divided by 3 as a number and validates nothing: the result is the integer
  \<open>count div 3\<close> when the count is a multiple of 3 and is not an integer otherwise;
  there is no failing path.
\<close>

theorem computeTriangleCount_value:
  "computeTriangleCount \<lparr>position = Some vs\<rparr> = Num (real (length vs) / 3) \<and>
   (length vs mod 3 = 0 \<longrightarrow>
      computeTriangleCount \<lparr>position = Some vs\<rparr> = Num (real (length vs div 3))) \<and>
   (length vs mod 3 \<noteq> 0 \<longrightarrow> real (length vs) / 3 \<notin> \<int>)"
proof (intro conjI impI)
  show v: "computeTriangleCount \<lparr>position = Some vs\<rparr> = Num (real (length vs) / 3)"
    by (simp add: computeTriangleCount_def)
  show "computeTriangleCount \<lparr>position = Some vs\<rparr> = Num (real (length vs div 3))"
    if "length vs mod 3 = 0"
  proof -
    from that have "3 dvd length vs" by presburger
    then have "real (length vs div 3) = real (length vs) / 3"
      by (simp add: real_of_nat_div)
    with v show ?thesis by simp
  qed
  show "real (length vs) / 3 \<notin> \<int>" if n: "length vs mod 3 \<noteq> 0"
  proof
    assume "real (length vs) / 3 \<in> \<int>"
    then obtain k :: int where "real (length vs) / 3 = of_int k" by (auto elim: Ints_cases)
    then have "real (length vs) = of_int (3 * k)" by simp
    then have "int (length vs) = 3 * k" by (metis of_int_eq_iff of_int_of_nat_eq)
    then have "int (length vs) mod 3 = 0" by simp
    then have "length vs mod 3 = 0" by presburger
    with n show False by simp
  qed
qed

text \<open>
  Four vertices: the count \<open>4 / 3\<close> is returned, which is not an integer, and no error
  is raised.
\<close>

theorem computeTriangleCount_fractional:
  "computeTriangleCount
     \<lparr>position = Some [Vector3 (Num 0) (Num 0) (Num 0), Vector3 (Num 1) (Num 0) (Num 0),
                       Vector3 (Num 0) (Num 1) (Num 0), Vector3 (Num 0) (Num 0) (Num 1)]\<rparr>
   = Num (4 / 3) \<and> (4 / 3 :: real) \<notin> \<int>"
proof -
  have "(4 / 3 :: real) \<notin> \<int>"
  proof
    assume "(4 / 3 :: real) \<in> \<int>"
    then obtain k :: int where "(4 / 3 :: real) = of_int k" by (auto elim: Ints_cases)
    then have "(4 :: real) = of_int (3 * k)" by simp
    then have "(4 :: int) = 3 * k" by (metis of_int_eq_iff of_int_numeral)
    then show False by presburger
  qed
  then show ?thesis by (simp add: computeTriangleCount_def)
qed

theorem computeTriangleCount_value_witness:
  "length (replicate 6 (Vector3 (Num 0) (Num 0) (Num 0))) mod 3 = 0 \<and>
   computeTriangleCount \<lparr>position = Some (replicate 6 (Vector3 (Num 0) (Num 0) (Num 0)))\<rparr> = Num 2 \<and>
   length (replicate 4 (Vector3 (Num 0) (Num 0) (Num 0))) mod 3 \<noteq> 0 \<and>
   computeTriangleCount \<lparr>position = Some (replicate 4 (Vector3 (Num 0) (Num 0) (Num 0)))\<rparr> = Num (4 / 3) \<and>
   (4 / 3 :: real) \<notin> \<int>"
  using computeTriangleCount_value[of "replicate 6 (Vector3 (Num 0) (Num 0) (Num 0))"]
        computeTriangleCount_value[of "replicate 4 (Vector3 (Num 0) (Num 0) (Num 0))"]
  by simp


text \<open>
  Claim C10. For a geometry with no position attribute at all
  \<^verbatim>\<open>computeTriangleCount\<close> returns \<open>0\<close>; no error is raised.
\<close>

theorem computeTriangleCount_no_position:
  "computeTriangleCount \<lparr>position = None\<rparr> = Num 0"
  by (simp add: computeTriangleCount_def)

section \<open>Bounding box\<close>

lemma js_min_Num [simp]: "js_min (Num a) (Num b) = Num (min a b)"
  by (simp add: js_min_def min_def)

lemma js_max_Num [simp]: "js_max (Num a) (Num b) = Num (max a b)"
  by (simp add: js_max_def max_def)

lemma expandByPoint_real:
  "expandByPoint \<lparr>box_min = vnum lo, box_max = vnum hi\<rparr> (vnum p)
   = \<lparr>box_min = vnum (pmin lo p), box_max = vnum (pmax hi p)\<rparr>"
  by (cases lo; cases hi; cases p)
     (simp add: expandByPoint_def vec_min_def vec_max_def pmin_def pmax_def)

lemma expandByPoint_makeEmpty:
  "expandByPoint makeEmpty (vnum p) = \<lparr>box_min = vnum p, box_max = vnum p\<rparr>"
  by (cases p) (simp add: expandByPoint_def makeEmpty_def vec_min_def vec_max_def js_min_def js_max_def)

lemma foldl_expandByPoint_real:
  "foldl expandByPoint \<lparr>box_min = vnum lo, box_max = vnum hi\<rparr> (map vnum ps)
   = \<lparr>box_min = vnum (foldl pmin lo ps), box_max = vnum (foldl pmax hi ps)\<rparr>"
  by (induction ps arbitrary: lo hi) (simp_all add: expandByPoint_real)

lemma setFromBufferAttribute_real:
  "setFromBufferAttribute (map vnum (p # ps))
   = \<lparr>box_min = vnum (foldl pmin p ps), box_max = vnum (foldl pmax p ps)\<rparr>"
  by (simp add: setFromBufferAttribute_def expandByPoint_makeEmpty foldl_expandByPoint_real)

lemma foldl_pmin_proj:
  assumes "\<And>p q. f (pmin p q) = min (f p) (f q)"
  shows "f (foldl pmin p ps) = Min (f ` set (p # ps))"
proof (induction ps arbitrary: p)
  case Nil
  show ?case by simp
next
  case (Cons q ps)
  have "f (foldl pmin p (q # ps)) = Min (insert (min (f p) (f q)) (f ` set ps))"
    using Cons[of "pmin p q"] by (simp add: assms)
  also have "\<dots> = Min (f ` set (p # q # ps))"
    by (cases "set ps = {}") (simp_all add: min.assoc)
  finally show ?case .
qed

lemma foldl_pmax_proj:
  assumes "\<And>p q. f (pmax p q) = max (f p) (f q)"
  shows "f (foldl pmax p ps) = Max (f ` set (p # ps))"
proof (induction ps arbitrary: p)
  case Nil
  show ?case by simp
next
  case (Cons q ps)
  have "f (foldl pmax p (q # ps)) = Max (insert (max (f p) (f q)) (f ` set ps))"
    using Cons[of "pmax p q"] by (simp add: assms)
  also have "\<dots> = Max (f ` set (p # q # ps))"
    by (cases "set ps = {}") (simp_all add: max.assoc)
  finally show ?case .
qed

lemma point_eq: "p = (px p, py p, pz p)"
  by (cases p) simp

lemma foldl_pmin_lower: "foldl pmin p ps = lower_corner (p # ps)"
  unfolding lower_corner_def
  by (subst point_eq[of "foldl pmin p ps"])
     (simp only: foldl_pmin_proj[of px] foldl_pmin_proj[of py] foldl_pmin_proj[of pz] pmin_def px.simps py.simps pz.simps)

lemma foldl_pmax_upper: "foldl pmax p ps = upper_corner (p # ps)"
  unfolding upper_corner_def
  by (subst point_eq[of "foldl pmax p ps"])
     (simp only: foldl_pmax_proj[of px] foldl_pmax_proj[of py] foldl_pmax_proj[of pz] pmax_def px.simps py.simps pz.simps)

lemma box_real:
  assumes "ps \<noteq> []"
  shows "setFromBufferAttribute (map vnum ps)
     = \<lparr>box_min = vnum (lower_corner ps), box_max = vnum (upper_corner ps)\<rparr>"
proof (cases ps)
  case Nil
  with assms show ?thesis by simp
next
  case (Cons p qs)
  show ?thesis
    unfolding Cons by (simp only: setFromBufferAttribute_real foldl_pmin_lower foldl_pmax_upper)
qed

lemma lower_le_upper:
  assumes "ps \<noteq> []"
  shows "Min (f ` set ps) \<le> Max (f ` set ps)"
proof -
  from assms obtain p where p: "p \<in> set ps" by (cases ps) auto
  then have "Min (f ` set ps) \<le> f p" "f p \<le> Max (f ` set ps)" by simp_all
  then show ?thesis by simp
qed

lemma isEmpty_real:
  assumes "ps \<noteq> []"
  shows "\<not> isEmpty (setFromBufferAttribute (map vnum ps))"
proof -
  have n: "\<not> Max (f ` set ps) < Min (f ` set ps)" for f :: "point \<Rightarrow> real"
    using lower_le_upper[OF assms, of f] by linarith
  show ?thesis
    unfolding box_real[OF assms] isEmpty_def lower_corner_def upper_corner_def
    by (simp only: vnum.simps vec3.sel box3.select_convs js_lt.simps n simp_thms)
qed

lemma getSize_real: "ps \<noteq> [] \<Longrightarrow> getSize (setFromBufferAttribute (map vnum ps)) = vnum (extents ps)"
  using isEmpty_real[of ps]
  by (simp add: getSize_def) (simp add: box_real subVectors_def js_sub_def lower_corner_def upper_corner_def extents_def)

lemma box_empty: "setFromBufferAttribute [] = makeEmpty"
  by (simp add: setFromBufferAttribute_def)

lemma isEmpty_makeEmpty: "isEmpty makeEmpty"
  by (simp add: isEmpty_def makeEmpty_def)

text \<open>
  Claim C4, as the code has it. On a mesh with zero vertices \<^verbatim>\<open>computeBoundingBox\<close>
  raises nothing: it returns the empty box, with corners at \<open>+\<infinity>\<close> and
  \<open>-\<infinity>\<close> and size \<open>(0, 0, 0)\<close>. On every non-empty mesh it returns the
  axis-aligned box over all vertices, with every size component \<open>\<ge> 0\<close> and
  \<open>min + size = max\<close> within floating tolerance: the equality is proved for the exact
  real arithmetic of this model, which leaves rounding out.
\<close>

theorem computeBoundingBox_spec:
  "computeBoundingBox (real_mesh []) =
     Inr \<lparr>bb_box = makeEmpty, bb_size = Vector3 (Num 0) (Num 0) (Num 0),
          bb_min = Vector3 Infinity Infinity Infinity,
          bb_max = Vector3 MinusInfinity MinusInfinity MinusInfinity\<rparr> \<and>
   (ps \<noteq> [] \<longrightarrow>
      (\<exists>bb. computeBoundingBox (real_mesh ps) = Inr bb \<and>
            bb_min bb = vnum (lower_corner ps) \<and>
            bb_max bb = vnum (upper_corner ps) \<and>
            bb_size bb = vnum (extents ps) \<and>
            0 \<le> px (extents ps) \<and> 0 \<le> py (extents ps) \<and> 0 \<le> pz (extents ps) \<and>
            addVectors (bb_min bb) (bb_size bb) = bb_max bb))"
proof (intro conjI impI)
  show "computeBoundingBox (real_mesh []) =
     Inr \<lparr>bb_box = makeEmpty, bb_size = Vector3 (Num 0) (Num 0) (Num 0),
          bb_min = Vector3 Infinity Infinity Infinity,
          bb_max = Vector3 MinusInfinity MinusInfinity MinusInfinity\<rparr>"
    by (simp add: computeBoundingBox_def real_mesh_def box_empty getSize_def isEmpty_makeEmpty)
       (simp add: makeEmpty_def)
next
  assume ne: "ps \<noteq> []"
  let ?bb = "\<lparr>bb_box = setFromBufferAttribute (map vnum ps), bb_size = vnum (extents ps),
              bb_min = vnum (lower_corner ps), bb_max = vnum (upper_corner ps)\<rparr>"
  have 1: "computeBoundingBox (real_mesh ps) = Inr ?bb"
    using ne by (simp add: computeBoundingBox_def real_mesh_def getSize_real Let_def) (simp add: box_real)
  have 2: "0 \<le> px (extents ps)" "0 \<le> py (extents ps)" "0 \<le> pz (extents ps)"
    using lower_le_upper[OF ne, of px] lower_le_upper[OF ne, of py] lower_le_upper[OF ne, of pz]
    by (simp_all only: extents_def px.simps py.simps pz.simps diff_ge_0_iff_ge)
  have 3: "addVectors (vnum (lower_corner ps)) (vnum (extents ps)) = vnum (upper_corner ps)"
    by (simp add: addVectors_def lower_corner_def upper_corner_def extents_def)
  show "\<exists>bb. computeBoundingBox (real_mesh ps) = Inr bb \<and>
            bb_min bb = vnum (lower_corner ps) \<and>
            bb_max bb = vnum (upper_corner ps) \<and>
            bb_size bb = vnum (extents ps) \<and>
            0 \<le> px (extents ps) \<and> 0 \<le> py (extents ps) \<and> 0 \<le> pz (extents ps) \<and>
            addVectors (bb_min bb) (bb_size bb) = bb_max bb"
    using 1 2 3 by (intro exI[of _ ?bb]) simp
qed

text \<open>
  The empty mesh: a box is returned, not an error, and \<open>min + size\<close> is not \<open>max\<close>.
\<close>

theorem computeBoundingBox_empty_no_error:
  "(\<forall>e. computeBoundingBox \<lparr>position = Some []\<rparr> \<noteq> Inl e) \<and>
   computeBoundingBox \<lparr>position = Some []\<rparr> =
     Inr \<lparr>bb_box = makeEmpty, bb_size = Vector3 (Num 0) (Num 0) (Num 0),
          bb_min = Vector3 Infinity Infinity Infinity,
          bb_max = Vector3 MinusInfinity MinusInfinity MinusInfinity\<rparr> \<and>
   addVectors (Vector3 Infinity Infinity Infinity) (Vector3 (Num 0) (Num 0) (Num 0))
     \<noteq> Vector3 MinusInfinity MinusInfinity MinusInfinity"
  by (simp add: computeBoundingBox_def box_empty getSize_def isEmpty_makeEmpty addVectors_def)
     (simp add: makeEmpty_def)

theorem computeBoundingBox_spec_witness:
  "[(0, 0, 0), (2, 1, 0), (1, 3, - 1 :: real)] \<noteq> [] \<and>
   (\<exists>bb. computeBoundingBox (real_mesh [(0, 0, 0), (2, 1, 0), (1, 3, - 1)]) = Inr bb \<and>
         bb_min bb = Vector3 (Num 0) (Num 0) (Num (- 1)) \<and>
         bb_max bb = Vector3 (Num 2) (Num 3) (Num 0) \<and>
         bb_size bb = Vector3 (Num 2) (Num 3) (Num 1) \<and>
         addVectors (bb_min bb) (bb_size bb) = bb_max bb)"
  using computeBoundingBox_spec[of "[(0, 0, 0), (2, 1, 0), (1, 3, - 1)]"]
  by (simp add: lower_corner_def upper_corner_def extents_def)

text \<open>
  \<^verbatim>\<open>compareModels\<close> does not skip an empty student mesh either: the report is
  produced, with \<open>0\<close> for the student's triangle count, volume and dimensions.
\<close>

lemma compareModels_empty_student:
  "\<exists>r. compareModels (real_mesh [(0, 0, 0), (2, 0, 0), (2, 2, 0)]) (real_mesh []) = Inr r \<and>
       cmp_student (triangleCounts r) = Num 0 \<and>
       cmp_student (volumes r) = Num 0 \<and>
       dim_x (dimensions r)
         = \<lparr>cmp_baseline = Num 2, cmp_student = Num 0, cmp_percentDifference = Num (- 100)\<rparr>"
proof -
  have b: "computeBoundingBox (real_mesh [(0, 0, 0), (2, 0, 0), (2, 2, 0)])
           = Inr \<lparr>bb_box = setFromBufferAttribute (map vnum [(0, 0, 0), (2, 0, 0), (2, 2, 0)]),
                  bb_size = vnum (2, 2, 0), bb_min = vnum (0, 0, 0), bb_max = vnum (2, 2, 0)\<rparr>"
    by (simp add: computeBoundingBox_def real_mesh_def setFromBufferAttribute_def
        expandByPoint_def makeEmpty_def vec_min_def vec_max_def js_min_def js_max_def
        getSize_def isEmpty_def subVectors_def js_sub_def)
  have e: "computeBoundingBox (real_mesh [])
           = Inr \<lparr>bb_box = makeEmpty, bb_size = Vector3 (Num 0) (Num 0) (Num 0),
                  bb_min = box_min makeEmpty, bb_max = box_max makeEmpty\<rparr>"
    by (simp add: computeBoundingBox_def real_mesh_def box_empty getSize_def isEmpty_makeEmpty)
  show ?thesis
    unfolding compareModels_def b e
    by (simp add: compared_def percentDifference_def js_sub_def Let_def)
       (simp add: computeTriangleCount_def computeApproxVolume_def real_mesh_def)
qed

section \<open>Quarter turns\<close>

lemma is_numE: "is_num a \<Longrightarrow> \<exists>r. a = Num r"
  by (cases a) simp_all

lemma finite_mat4E:
  assumes "finite_mat4 m"
  obtains t11 t12 t13 t14 t21 t22 t23 t24 t31 t32 t33 t34 t41 t42 t43 t44 where
    "m = \<lparr>n11 = Num t11, n12 = Num t12, n13 = Num t13, n14 = Num t14,
          n21 = Num t21, n22 = Num t22, n23 = Num t23, n24 = Num t24,
          n31 = Num t31, n32 = Num t32, n33 = Num t33, n34 = Num t34,
          n41 = Num t41, n42 = Num t42, n43 = Num t43, n44 = Num t44\<rparr>"
proof -
  from assms obtain t11 t12 t13 t14 where 1: "n11 m = Num t11" "n12 m = Num t12" "n13 m = Num t13" "n14 m = Num t14"
    unfolding finite_mat4_def by (meson is_numE)
  from assms obtain t21 t22 t23 t24 where 2: "n21 m = Num t21" "n22 m = Num t22" "n23 m = Num t23" "n24 m = Num t24"
    unfolding finite_mat4_def by (meson is_numE)
  from assms obtain t31 t32 t33 t34 where 3: "n31 m = Num t31" "n32 m = Num t32" "n33 m = Num t33" "n34 m = Num t34"
    unfolding finite_mat4_def by (meson is_numE)
  from assms obtain t41 t42 t43 t44 where 4: "n41 m = Num t41" "n42 m = Num t42" "n43 m = Num t43" "n44 m = Num t44"
    unfolding finite_mat4_def by (meson is_numE)
  have "m = \<lparr>n11 = Num t11, n12 = Num t12, n13 = Num t13, n14 = Num t14,
          n21 = Num t21, n22 = Num t22, n23 = Num t23, n24 = Num t24,
          n31 = Num t31, n32 = Num t32, n33 = Num t33, n34 = Num t34,
          n41 = Num t41, n42 = Num t42, n43 = Num t43, n44 = Num t44\<rparr>"
    using 1 2 3 4 by (cases m) simp
  then show thesis by (rule that)
qed

lemma makeRotationX_quarter: "d = 1 \<or> d = - 1 \<Longrightarrow> makeRotationX (d * (pi / 2)) = quarter_turn_x d"
  by (auto simp: makeRotationX_def quarter_turn_x_def)

lemma makeRotationY_quarter: "d = 1 \<or> d = - 1 \<Longrightarrow> makeRotationY (d * (pi / 2)) = quarter_turn_y d"
  by (auto simp: makeRotationY_def quarter_turn_y_def)

lemma makeRotationX_plus: "makeRotationX (pi / 2) = quarter_turn_x 1"
  using makeRotationX_quarter[of 1] by simp

lemma makeRotationX_minus: "makeRotationX (- (pi / 2)) = quarter_turn_x (- 1)"
  by (simp add: makeRotationX_def quarter_turn_x_def)

lemma makeRotationY_plus: "makeRotationY (pi / 2) = quarter_turn_y 1"
  using makeRotationY_quarter[of 1] by simp

lemma makeRotationY_minus: "makeRotationY (- (pi / 2)) = quarter_turn_y (- 1)"
  by (simp add: makeRotationY_def quarter_turn_y_def)

lemma quarter_x_inverse:
  assumes "finite_mat4 m" "d = 1 \<or> d = - 1"
  shows "multiplyMatrices (quarter_turn_x (- d)) (multiplyMatrices (quarter_turn_x d) m) = m"
proof -
  from assms(1) obtain t11 t12 t13 t14 t21 t22 t23 t24 t31 t32 t33 t34 t41 t42 t43 t44 where
    m: "m = \<lparr>n11 = Num t11, n12 = Num t12, n13 = Num t13, n14 = Num t14,
          n21 = Num t21, n22 = Num t22, n23 = Num t23, n24 = Num t24,
          n31 = Num t31, n32 = Num t32, n33 = Num t33, n34 = Num t34,
          n41 = Num t41, n42 = Num t42, n43 = Num t43, n44 = Num t44\<rparr>"
    by (rule finite_mat4E)
  from assms(2) have dd: "d * d = 1" by auto
  show ?thesis
    unfolding m by (simp add: multiplyMatrices_def row_col_def quarter_turn_x_def dd)
qed

lemma quarter_y_inverse:
  assumes "finite_mat4 m" "d = 1 \<or> d = - 1"
  shows "multiplyMatrices (quarter_turn_y (- d)) (multiplyMatrices (quarter_turn_y d) m) = m"
proof -
  from assms(1) obtain t11 t12 t13 t14 t21 t22 t23 t24 t31 t32 t33 t34 t41 t42 t43 t44 where
    m: "m = \<lparr>n11 = Num t11, n12 = Num t12, n13 = Num t13, n14 = Num t14,
          n21 = Num t21, n22 = Num t22, n23 = Num t23, n24 = Num t24,
          n31 = Num t31, n32 = Num t32, n33 = Num t33, n34 = Num t34,
          n41 = Num t41, n42 = Num t42, n43 = Num t43, n44 = Num t44\<rparr>"
    by (rule finite_mat4E)
  from assms(2) have dd: "d * d = 1" by auto
  show ?thesis
    unfolding m by (simp add: multiplyMatrices_def row_col_def quarter_turn_y_def dd)
qed

lemma four_quarter_turns_x:
  "multiplyMatrices (quarter_turn_x 1) (multiplyMatrices (quarter_turn_x 1)
     (multiplyMatrices (quarter_turn_x 1) (multiplyMatrices (quarter_turn_x 1) identity))) = identity"
  by (simp add: multiplyMatrices_def row_col_def quarter_turn_x_def identity_def)

lemma finite_identity: "finite_mat4 identity"
  by (simp add: finite_mat4_def identity_def)

lemma finite_quarter: "finite_mat4 (makeRotationX t)" "finite_mat4 (makeRotationY t)"
  by (simp_all add: finite_mat4_def makeRotationX_def makeRotationY_def Let_def)

lemma finite_multiply:
  assumes "finite_mat4 a" "finite_mat4 b"
  shows "finite_mat4 (multiplyMatrices a b)"
proof -
  from assms(1) obtain a11 a12 a13 a14 a21 a22 a23 a24 a31 a32 a33 a34 a41 a42 a43 a44 where
    a: "a = \<lparr>n11 = Num a11, n12 = Num a12, n13 = Num a13, n14 = Num a14,
          n21 = Num a21, n22 = Num a22, n23 = Num a23, n24 = Num a24,
          n31 = Num a31, n32 = Num a32, n33 = Num a33, n34 = Num a34,
          n41 = Num a41, n42 = Num a42, n43 = Num a43, n44 = Num a44\<rparr>"
    by (rule finite_mat4E)
  from assms(2) obtain b11 b12 b13 b14 b21 b22 b23 b24 b31 b32 b33 b34 b41 b42 b43 b44 where
    b: "b = \<lparr>n11 = Num b11, n12 = Num b12, n13 = Num b13, n14 = Num b14,
          n21 = Num b21, n22 = Num b22, n23 = Num b23, n24 = Num b24,
          n31 = Num b31, n32 = Num b32, n33 = Num b33, n34 = Num b34,
          n41 = Num b41, n42 = Num b42, n43 = Num b43, n44 = Num b44\<rparr>"
    by (rule finite_mat4E)
  show ?thesis
    unfolding a b by (simp add: multiplyMatrices_def row_col_def finite_mat4_def)
qed

section \<open>Rotating and resetting the student model\<close>

lemma set_orientation_simps [simp]:
  "studentTransform (set_orientation t s) = t"
  "studentGeometry (set_orientation t s) = studentGeometry s"
  "baselineGeometry (set_orientation t s) = baselineGeometry s"
  "heap (set_orientation t s) = heap s"
  "scene (set_orientation t s) = scene s"
  "(studentMesh (set_orientation t s) = None) = (studentMesh s = None)"
  by (simp_all add: set_orientation_def)

lemma rotateStudent_loaded:
  assumes "studentMesh s \<noteq> None" "studentGeometry s \<noteq> None" "d = 1 \<or> d = - 1"
  shows "rotateStudent ''x'' (Num d) s
           = set_orientation (multiplyMatrices (quarter_turn_x d) (studentTransform s)) s"
    and "rotateStudent ''y'' (Num d) s
           = set_orientation (multiplyMatrices (quarter_turn_y d) (studentTransform s)) s"
  using assms
  by (auto simp: rotateStudent_def js_gt_def makeRotationX_plus makeRotationX_minus
      makeRotationY_plus makeRotationY_minus)

lemma rotateStudent_not_loaded:
  "studentMesh s = None \<or> studentGeometry s = None \<Longrightarrow> rotateStudent axis direction s = s"
  by (simp add: rotateStudent_def)


lemma rotate_frame [simp]:
  "heap (rotateStudent axis direction s) = heap s"
  "studentGeometry (rotateStudent axis direction s) = studentGeometry s"
  "baselineGeometry (rotateStudent axis direction s) = baselineGeometry s"
  "(studentMesh (rotateStudent axis direction s) = None) = (studentMesh s = None)"
  by (simp_all add: rotateStudent_def Let_def)

lemma reset_frame [simp]:
  "heap (resetStudentOrientation s) = heap s"
  "studentGeometry (resetStudentOrientation s) = studentGeometry s"
  "baselineGeometry (resetStudentOrientation s) = baselineGeometry s"
  "(studentMesh (resetStudentOrientation s) = None) = (studentMesh s = None)"
  by (simp_all add: resetStudentOrientation_def)

lemma orient_frame:
  "scene (orient c s) = scene s \<and>
   baselineMesh (orient c s) = baselineMesh s \<and>
   baselineGeometry (orient c s) = baselineGeometry s \<and>
   studentGeometry (orient c s) = studentGeometry s \<and>
   heap (orient c s) = heap s \<and>
   map_option mesh_geometry (studentMesh (orient c s)) = map_option mesh_geometry (studentMesh s)"
  by (cases c)
     (auto simp: rotateStudent_def resetStudentOrientation_def set_orientation_def Let_def
        option.map_comp comp_def option.map_ident)

lemma orient_all_frame:
  "scene (orient_all calls s) = scene s \<and>
   baselineMesh (orient_all calls s) = baselineMesh s \<and>
   baselineGeometry (orient_all calls s) = baselineGeometry s \<and>
   studentGeometry (orient_all calls s) = studentGeometry s \<and>
   heap (orient_all calls s) = heap s \<and>
   map_option mesh_geometry (studentMesh (orient_all calls s))
     = map_option mesh_geometry (studentMesh s)"
  unfolding orient_all_def
proof (induction calls arbitrary: s)
  case Nil
  show ?case by simp
next
  case (Cons c calls)
  show ?case using Cons[of "orient c s"] orient_frame[of c s] by simp
qed

lemma rotate_x_transform:
  assumes "studentMesh s \<noteq> None" "studentGeometry s \<noteq> None"
  shows "studentTransform (rotateStudent ''x'' (Num 1) s)
           = multiplyMatrices (quarter_turn_x 1) (studentTransform s)"
  unfolding rotateStudent_loaded(1)[OF assms, of 1, simplified] by simp









lemma four_turns_not_loaded:
  assumes "studentMesh s = None"
  shows "studentTransform (rotateStudent ''x'' (Num 1) (rotateStudent ''x'' (Num 1)
     (rotateStudent ''x'' (Num 1) (rotateStudent ''x'' (Num 1) (resetStudentOrientation s)))))
   = studentTransform s"
  using assms by (simp add: rotateStudent_not_loaded resetStudentOrientation_def)

lemma four_turns_loaded:
  assumes "studentMesh s \<noteq> None"
  shows "studentTransform (rotateStudent ''x'' (Num 1) (rotateStudent ''x'' (Num 1)
     (rotateStudent ''x'' (Num 1) (rotateStudent ''x'' (Num 1) (resetStudentOrientation s)))))
   = identity"
proof -
  from assms obtain m where m: "studentMesh s = Some m" by auto
  let ?r = "rotateStudent ''x'' (Num 1)"
  let ?q = "multiplyMatrices (quarter_turn_x 1)"
  let ?s0 = "resetStudentOrientation s"
  have t0: "studentTransform ?s0 = identity"
    by (simp add: resetStudentOrientation_def m)
  have m0: "studentMesh ?s0 \<noteq> None"
    by (simp add: m)
  show ?thesis
  proof (cases "studentGeometry s")
    case None
    then have "rotateStudent axis direction s' = s'" if "studentGeometry s' = studentGeometry s"
      for axis direction s'
      using that by (simp add: rotateStudent_not_loaded)
    then show ?thesis by (simp add: t0)
  next
    case (Some a)
    then have g: "studentGeometry s' \<noteq> None" if "studentGeometry s' = studentGeometry s" for s'
      using that by simp
    have 1: "studentTransform (?r ?s0) = ?q identity"
      using rotate_x_transform[of ?s0] g[of ?s0] m0 t0 by simp
    have 2: "studentTransform (?r (?r ?s0)) = ?q (?q identity)"
      using rotate_x_transform[of "?r ?s0"] g[of "?r ?s0"] m0 1 by simp
    have 3: "studentTransform (?r (?r (?r ?s0))) = ?q (?q (?q identity))"
      using rotate_x_transform[of "?r (?r ?s0)"] g[of "?r (?r ?s0)"] m0 2 by simp
    have 4: "studentTransform (?r (?r (?r (?r ?s0)))) = ?q (?q (?q (?q identity)))"
      using rotate_x_transform[of "?r (?r (?r ?s0))"] g[of "?r (?r (?r ?s0))"] m0 3 by simp
    show ?thesis unfolding 4 by (rule four_quarter_turns_x)
  qed
qed

lemma rotate_pair_restores:
  assumes "finite_mat4 (studentTransform s)" "axis = ''x'' \<or> axis = ''y''" "d = 1 \<or> d = - 1"
  shows "studentTransform (rotateStudent axis (Num (- d)) (rotateStudent axis (Num d) s))
           = studentTransform s"
proof (cases "studentMesh s = None \<or> studentGeometry s = None")
  case True
  then show ?thesis by (simp add: rotateStudent_not_loaded)
next
  case False
  then have m: "studentMesh s \<noteq> None" and g: "studentGeometry s \<noteq> None" by simp_all
  from assms(3) have d': "- d = 1 \<or> - d = - 1" by auto
  let ?s1 = "rotateStudent axis (Num d) s"
  have m1: "studentMesh ?s1 \<noteq> None" and g1: "studentGeometry ?s1 \<noteq> None"
    using m g by simp_all
  from assms(2) show ?thesis
  proof
    assume ax: "axis = ''x''"
    have "studentTransform ?s1 = multiplyMatrices (quarter_turn_x d) (studentTransform s)"
      unfolding ax rotateStudent_loaded(1)[OF m g assms(3)] by simp
    moreover have "studentTransform (rotateStudent axis (Num (- d)) ?s1)
        = multiplyMatrices (quarter_turn_x (- d)) (studentTransform ?s1)"
      using rotateStudent_loaded(1)[OF m1 g1 d'] unfolding ax by simp
    ultimately show ?thesis
      by (simp add: quarter_x_inverse[OF assms(1) assms(3)])
  next
    assume ax: "axis = ''y''"
    have "studentTransform ?s1 = multiplyMatrices (quarter_turn_y d) (studentTransform s)"
      unfolding ax rotateStudent_loaded(2)[OF m g assms(3)] by simp
    moreover have "studentTransform (rotateStudent axis (Num (- d)) ?s1)
        = multiplyMatrices (quarter_turn_y (- d)) (studentTransform ?s1)"
      using rotateStudent_loaded(2)[OF m1 g1 d'] unfolding ax by simp
    ultimately show ?thesis
      by (simp add: quarter_y_inverse[OF assms(1) assms(3)])
  qed
qed

text \<open>
  Claim C6. After \<^verbatim>\<open>resetStudentOrientation\<close>, four calls
  \<^verbatim>\<open>rotateStudent('x', 1)\<close> leave the identity transform; and on either axis a
  rotation by \<open>+1\<close> followed by one by \<open>-1\<close> restores the transform. The hypotheses
  hold in every reachable state (\<open>reachable_orientation_invariant\<close> below). Over the
  reals the equalities are exact.
\<close>

theorem orientation_group_action:
  "((studentMesh s \<noteq> None \<or> studentTransform s = identity) \<longrightarrow>
      studentTransform (rotateStudent ''x'' (Num 1) (rotateStudent ''x'' (Num 1)
        (rotateStudent ''x'' (Num 1) (rotateStudent ''x'' (Num 1)
          (resetStudentOrientation s))))) = identity) \<and>
   (finite_mat4 (studentTransform s) \<and> (axis = ''x'' \<or> axis = ''y'') \<longrightarrow>
      studentTransform (rotateStudent axis (Num (- 1)) (rotateStudent axis (Num 1) s))
        = studentTransform s)"
proof (intro conjI impI)
  assume "studentMesh s \<noteq> None \<or> studentTransform s = identity"
  then show "studentTransform (rotateStudent ''x'' (Num 1) (rotateStudent ''x'' (Num 1)
        (rotateStudent ''x'' (Num 1) (rotateStudent ''x'' (Num 1)
          (resetStudentOrientation s))))) = identity"
    using four_turns_loaded[of s] four_turns_not_loaded[of s] by (cases "studentMesh s = None") simp_all
next
  assume "finite_mat4 (studentTransform s) \<and> (axis = ''x'' \<or> axis = ''y'')"
  then show "studentTransform (rotateStudent axis (Num (- 1)) (rotateStudent axis (Num 1) s))
        = studentTransform s"
    using rotate_pair_restores[of s axis 1] by simp
qed

theorem orientation_group_action_witness:
  "studentMesh (rotateStudent ''y'' (Num 1) example_loaded) \<noteq> None \<and>
   finite_mat4 (studentTransform (rotateStudent ''y'' (Num 1) example_loaded)) \<and>
   studentTransform (rotateStudent ''y'' (Num 1) example_loaded) = quarter_turn_y 1 \<and>
   studentTransform (rotateStudent ''x'' (Num 1) (rotateStudent ''x'' (Num 1)
        (rotateStudent ''x'' (Num 1) (rotateStudent ''x'' (Num 1)
          (resetStudentOrientation (rotateStudent ''y'' (Num 1) example_loaded))))))
     = identity \<and>
   studentTransform (rotateStudent ''x'' (Num (- 1))
        (rotateStudent ''x'' (Num 1) (rotateStudent ''y'' (Num 1) example_loaded)))
     = quarter_turn_y 1"
proof -
  have l: "studentMesh example_loaded \<noteq> None" "studentGeometry example_loaded \<noteq> None"
    "studentTransform example_loaded = identity"
    by (simp_all add: example_loaded_def)
  have i: "multiplyMatrices (quarter_turn_y 1) identity = quarter_turn_y 1"
    by (simp add: multiplyMatrices_def row_col_def quarter_turn_y_def identity_def)
  have t: "studentTransform (rotateStudent ''y'' (Num 1) example_loaded) = quarter_turn_y 1"
    using rotateStudent_loaded(2)[OF l(1,2), of 1] by (simp add: l(3) i)
  have m: "studentMesh (rotateStudent ''y'' (Num 1) example_loaded) \<noteq> None"
    using l(1) by simp
  have f: "finite_mat4 (quarter_turn_y 1)"
    by (simp add: finite_mat4_def quarter_turn_y_def)
  show ?thesis
    using orientation_group_action[of "rotateStudent ''y'' (Num 1) example_loaded" "''x''"] m f t
    by simp
qed

section \<open>Loading the student model\<close>

text \<open>
  Claim C8. \<^verbatim>\<open>loadStudent\<close> called while no baseline geometry is stored fails: the
  promise is rejected with an error and the state is left exactly as it was, so no
  student geometry, mesh or transform is set. With the viewer initialised the error is
  the one that asks for the baseline.
\<close>

theorem loadStudent_without_baseline:
  "baselineGeometry s = None \<longrightarrow>
     (\<exists>e. loadStudent s loaded = (s, Inl e)) \<and>
     (scene s \<longrightarrow>
        loadStudent s loaded
          = (s, Inl (Error ''Load the baseline before loading a student model.'')))"
  by (simp add: loadStudent_def)

theorem loadStudent_without_baseline_witness:
  "baselineGeometry (initViewer module_loaded) = None \<and>
   scene (initViewer module_loaded) \<and>
   loadStudent (initViewer module_loaded) (Inr (real_mesh [(0, 0, 0), (1, 0, 0), (0, 1, 0)]))
     = (initViewer module_loaded,
        Inl (Error ''Load the baseline before loading a student model.''))"
  using loadStudent_without_baseline
          [of "initViewer module_loaded" "Inr (real_mesh [(0, 0, 0), (1, 0, 0), (0, 1, 0)])"]
  by (simp add: initViewer_def module_loaded_def)

lemma applyMatrix4_translation:
  "applyMatrix4 (makeTranslation (Num tx) (Num ty) (Num tz)) (vnum p)
     = vnum (translate_point (tx, ty, tz) p)"
  by (cases p) (simp add: applyMatrix4_def makeTranslation_def translate_point_def)

lemma applyMatrix4_scale:
  "applyMatrix4 (makeScale (Num k) (Num k) (Num k)) (vnum p) = vnum (scale_point k p)"
  by (cases p) (simp add: applyMatrix4_def makeScale_def scale_point_def)

lemma scale_real_mesh:
  "scale (Num k) (Num k) (Num k) (real_mesh ps) = real_mesh (map (scale_point k) ps)"
  by (simp add: scale_def geometry_applyMatrix4_def real_mesh_def applyMatrix4_scale)

lemma translate_real_mesh:
  "translate (Num tx) (Num ty) (Num tz) (real_mesh ps)
     = real_mesh (map (translate_point (tx, ty, tz)) ps)"
  by (simp add: translate_def geometry_applyMatrix4_def real_mesh_def applyMatrix4_translation)

lemma getCenter_real:
  "getCenter (setFromBufferAttribute (map vnum ps)) = vnum (center ps)"
proof (cases "ps = []")
  case True
  then show ?thesis
    by (simp add: getCenter_def box_empty isEmpty_makeEmpty center_def)
next
  case False
  then show ?thesis
    using isEmpty_real[OF False]
    by (simp add: getCenter_def)
       (simp add: box_real addVectors_def multiplyScalar_def lower_corner_def upper_corner_def
          center_def)
qed

lemma centerGeometry_real:
  "centerGeometry (real_mesh ps)
     = real_mesh (map (translate_point (- px (center ps), - py (center ps), - pz (center ps))) ps)"
proof -
  have c: "getCenter (geometry_boundingBox (real_mesh ps)) = vnum (center ps)"
    by (simp add: geometry_boundingBox_def real_mesh_def getCenter_real)
  obtain cx cy cz where p: "center ps = (cx, cy, cz)" by (cases "center ps")
  show ?thesis
    unfolding centerGeometry_def Let_def c p
    by (simp add: translate_real_mesh)
qed

lemma computeMaxDimension_real:
  "computeMaxDimension (real_mesh ps) = Inr (Num (max_extent ps))"
proof (cases "ps = []")
  case True
  then show ?thesis
    by (simp add: computeMaxDimension_def real_mesh_def box_empty getSize_def isEmpty_makeEmpty
        js_max3_def max_extent_def)
next
  case False
  obtain ex ey ez where e: "extents ps = (ex, ey, ez)" by (cases "extents ps")
  show ?thesis
    using False
    by (simp add: computeMaxDimension_def real_mesh_def getSize_real e js_max3_def max_extent_def)
qed

lemma Max_scale:
  assumes "0 \<le> (k::real)" "ps \<noteq> []"
  shows "Max ((\<lambda>p. k * f p) ` set ps) = k * Max (f ` set ps)"
proof -
  have "mono ((*) k)" using assms(1) by (simp add: mono_def mult_left_mono)
  from mono_Max_commute[OF this, of "f ` set ps"] assms(2)
  show ?thesis by (simp add: image_image)
qed

lemma Min_scale:
  assumes "0 \<le> (k::real)" "ps \<noteq> []"
  shows "Min ((\<lambda>p. k * f p) ` set ps) = k * Min (f ` set ps)"
proof -
  have "mono ((*) k)" using assms(1) by (simp add: mono_def mult_left_mono)
  from mono_Min_commute[OF this, of "f ` set ps"] assms(2)
  show ?thesis by (simp add: image_image)
qed

lemma max_scale:
  assumes "0 \<le> (k::real)"
  shows "max (k * a) (k * b) = k * max a b"
proof (cases "a \<le> b")
  case True
  then have "k * a \<le> k * b" using assms by (rule mult_left_mono)
  with True show ?thesis by (simp add: max_absorb2)
next
  case False
  then have ba: "b \<le> a" by simp
  then have "k * b \<le> k * a" using assms by (rule mult_left_mono)
  with ba show ?thesis by (simp add: max_absorb1)
qed

lemma extents_scale:
  assumes "0 \<le> k" "ps \<noteq> []"
  shows "extents (map (scale_point k) ps) = scale_point k (extents ps)"
proof -
  have i: "px ` set (map (scale_point k) ps) = (\<lambda>p. k * px p) ` set ps"
    "py ` set (map (scale_point k) ps) = (\<lambda>p. k * py p) ` set ps"
    "pz ` set (map (scale_point k) ps) = (\<lambda>p. k * pz p) ` set ps"
    by (simp_all add: image_image scale_point_def)
  show ?thesis
    unfolding extents_def i Max_scale[OF assms] Min_scale[OF assms]
    by (simp add: scale_point_def right_diff_distrib)
qed

lemma max_extent_scale:
  assumes "0 \<le> k"
  shows "max_extent (map (scale_point k) ps) = k * max_extent ps"
proof (cases "ps = []")
  case True
  then show ?thesis by (simp add: max_extent_def)
next
  case False
  then show ?thesis
    by (simp add: max_extent_def extents_scale[OF assms False] scale_point_def max_scale[OF assms])
qed

lemma max_extent_nonneg: "0 \<le> max_extent ps"
proof (cases "ps = []")
  case True
  then show ?thesis by (simp add: max_extent_def)
next
  case False
  have "0 \<le> px (extents ps)"
    using lower_le_upper[OF False, of px] by (simp only: extents_def px.simps diff_ge_0_iff_ge)
  then show ?thesis using False by (simp add: max_extent_def le_max_iff_disj)
qed

lemma Max_shift:
  assumes "ps \<noteq> []"
  shows "Max ((\<lambda>p. f p + (t::real)) ` set ps) = Max (f ` set ps) + t"
proof -
  have "mono (\<lambda>x. x + t)" by (simp add: mono_def)
  from mono_Max_commute[OF this, of "f ` set ps"] assms
  show ?thesis by (simp add: image_image)
qed

lemma Min_shift:
  assumes "ps \<noteq> []"
  shows "Min ((\<lambda>p. f p + (t::real)) ` set ps) = Min (f ` set ps) + t"
proof -
  have "mono (\<lambda>x. x + t)" by (simp add: mono_def)
  from mono_Min_commute[OF this, of "f ` set ps"] assms
  show ?thesis by (simp add: image_image)
qed

lemma extents_translate:
  assumes "ps \<noteq> []"
  shows "extents (map (translate_point t) ps) = extents ps"
proof -
  have i: "px ` set (map (translate_point t) ps) = (\<lambda>p. px p + px t) ` set ps"
    "py ` set (map (translate_point t) ps) = (\<lambda>p. py p + py t) ` set ps"
    "pz ` set (map (translate_point t) ps) = (\<lambda>p. pz p + pz t) ` set ps"
    by (simp_all add: image_image translate_point_def)
  show ?thesis
    unfolding extents_def i Max_shift[OF assms] Min_shift[OF assms] by simp
qed

lemma max_extent_centered: "max_extent (centered ps) = max_extent ps"
proof (cases "ps = []")
  case True
  then show ?thesis by (simp add: centered_def)
next
  case False
  then show ?thesis
    by (simp add: max_extent_def centered_def extents_translate)
qed

lemma loadStudent_real:
  fixes bs cs :: "point list"
  assumes "scene s" "baselineGeometry s = Some b" "b < length (heap s)"
    "heap s ! b = real_mesh bs"
  defines "k \<equiv> (if 0 < max_extent (centered cs)
                  then max_extent bs / max_extent (centered cs) else 1)"
  shows "loadStudent s (Inr (real_mesh cs)) =
           (s\<lparr>heap := heap s @ [real_mesh (map (scale_point k) (centered cs))],
              studentGeometry := Some (length (heap s)),
              studentTransform := identity,
              studentMesh := Some \<lparr>mesh_geometry = length (heap s), mesh_matrix = identity\<rparr>\<rparr>,
            Inr (length (heap s)))"
proof -
  let ?h2 = "heap s @ [real_mesh (centered cs)]"
  have h2: "mutate (length (heap s)) centerGeometry (heap s @ [real_mesh cs]) = ?h2"
    by (simp add: mutate_def centerGeometry_real centered_def)
  have b: "computeMaxDimension (?h2 ! b) = Inr (Num (max_extent bs))"
    using assms(3,4) by (simp add: nth_append computeMaxDimension_real)
  have a: "computeMaxDimension (?h2 ! length (heap s)) = Inr (Num (max_extent (centered cs)))"
    by (simp add: computeMaxDimension_real)
  have f: "(if js_gt (Num (max_extent (centered cs))) (Num 0)
            then js_div (Num (max_extent bs)) (Num (max_extent (centered cs))) else Num 1)
           = Num k"
    by (simp add: js_gt_def k_def)
  have h3: "mutate (length (heap s)) (scale (Num k) (Num k) (Num k)) ?h2
            = heap s @ [real_mesh (map (scale_point k) (centered cs))]"
    by (simp add: mutate_def scale_real_mesh)
  show ?thesis
    using assms(1,2)
    by (simp add: loadStudent_def new_object_def h2 b a f h3 Let_def del: nth_append_length)
qed

text \<open>
  Claim C7. With a baseline stored, \<^verbatim>\<open>loadStudent\<close> of a mesh \<open>cs\<close> succeeds, stores
  a new geometry and resets the orientation. The new geometry is the centred mesh with
  every vertex multiplied by \<open>k\<close>, where \<open>k\<close> is the baseline's largest extent divided by
  the centred mesh's largest extent if that is positive, and \<open>1\<close> otherwise. In the
  first case the student's largest bounding dimension equals the baseline's; in the
  second it stays \<open>0\<close>. Centring does not change the largest extent, and the baseline
  geometry is unchanged.
\<close>

theorem loadStudent_scale_match:
  "scene s \<and> baselineGeometry s = Some b \<and> b < length (heap s) \<and> heap s ! b = real_mesh bs \<longrightarrow>
   (\<exists>s' a k. loadStudent s (Inr (real_mesh cs)) = (s', Inr a) \<and>
       a = length (heap s) \<and> studentGeometry s' = Some a \<and> studentTransform s' = identity \<and>
       baselineGeometry s' = Some b \<and> heap s' ! b = real_mesh bs \<and>
       centerGeometry (real_mesh cs) = real_mesh (centered cs) \<and>
       max_extent (centered cs) = max_extent cs \<and>
       computeMaxDimension (real_mesh bs) = Inr (Num (max_extent bs)) \<and>
       computeMaxDimension (real_mesh (centered cs)) = Inr (Num (max_extent (centered cs))) \<and>
       k = (if 0 < max_extent (centered cs)
            then max_extent bs / max_extent (centered cs) else 1) \<and>
       heap s' ! a = real_mesh (map (scale_point k) (centered cs)) \<and>
       computeMaxDimension (heap s' ! a)
         = (if 0 < max_extent (centered cs) then computeMaxDimension (heap s' ! b)
            else Inr (Num 0)))"
proof
  assume h: "scene s \<and> baselineGeometry s = Some b \<and> b < length (heap s) \<and>
             heap s ! b = real_mesh bs"
  define k where "k = (if 0 < max_extent (centered cs)
                        then max_extent bs / max_extent (centered cs) else 1)"
  have k0: "0 \<le> k"
    using max_extent_nonneg[of bs] by (simp add: k_def)
  have m: "max_extent (map (scale_point k) (centered cs))
           = (if 0 < max_extent (centered cs) then max_extent bs else 0)"
    using max_extent_nonneg[of "centered cs"]
    by (simp add: max_extent_scale[OF k0]) (simp add: k_def)
  let ?s' = "s\<lparr>heap := heap s @ [real_mesh (map (scale_point k) (centered cs))],
              studentGeometry := Some (length (heap s)),
              studentTransform := identity,
              studentMesh := Some \<lparr>mesh_geometry = length (heap s), mesh_matrix = identity\<rparr>\<rparr>"
  have l: "loadStudent s (Inr (real_mesh cs)) = (?s', Inr (length (heap s)))"
    using h loadStudent_real[of s b bs cs] by (simp add: k_def)
  have c: "centerGeometry (real_mesh cs) = real_mesh (centered cs)"
    by (simp add: centerGeometry_real centered_def)
  have hb: "heap ?s' ! b = real_mesh bs"
    using h by (simp add: nth_append)
  have ha: "heap ?s' ! length (heap s) = real_mesh (map (scale_point k) (centered cs))"
    by simp
  have d: "computeMaxDimension (heap ?s' ! length (heap s))
         = (if 0 < max_extent (centered cs) then computeMaxDimension (heap ?s' ! b)
            else Inr (Num 0))"
    unfolding ha hb by (simp add: computeMaxDimension_real m)
  show "\<exists>s' a k. loadStudent s (Inr (real_mesh cs)) = (s', Inr a) \<and>
       a = length (heap s) \<and> studentGeometry s' = Some a \<and> studentTransform s' = identity \<and>
       baselineGeometry s' = Some b \<and> heap s' ! b = real_mesh bs \<and>
       centerGeometry (real_mesh cs) = real_mesh (centered cs) \<and>
       max_extent (centered cs) = max_extent cs \<and>
       computeMaxDimension (real_mesh bs) = Inr (Num (max_extent bs)) \<and>
       computeMaxDimension (real_mesh (centered cs)) = Inr (Num (max_extent (centered cs))) \<and>
       k = (if 0 < max_extent (centered cs)
            then max_extent bs / max_extent (centered cs) else 1) \<and>
       heap s' ! a = real_mesh (map (scale_point k) (centered cs)) \<and>
       computeMaxDimension (heap s' ! a)
         = (if 0 < max_extent (centered cs) then computeMaxDimension (heap s' ! b)
            else Inr (Num 0))"
    apply (rule exI[of _ ?s'])
    apply (rule exI[of _ "length (heap s)"])
    apply (rule exI[of _ k])
    using h l c hb ha d by (simp add: computeMaxDimension_real k_def max_extent_centered)
qed

lemma example_centered:
  "centered [(0, 0, 0), (1, 0, 0), (1, 1 / 2, 0)] = [(- (1 / 2), - (1 / 4), 0), (1 / 2, - (1 / 4), 0), (1 / 2, 1 / 4, 0)]"
  by (simp add: centered_def center_def translate_point_def)

lemma example_extents:
  "max_extent [(- (1 / 2), - (1 / 4), 0), (1 / 2, - (1 / 4), 0), (1 / 2, 1 / 4, 0)] = 1"
  "max_extent [(- 1, - 1, 0), (1, - 1, 0), (1, 1, 0)] = 2"
  by (simp_all add: max_extent_def extents_def)

lemma example_point_mesh:
  "centered [(3, 3, 3), (3, 3, 3), (3, 3, 3)] = [(0, 0, 0), (0, 0, 0), (0, 0, 0)]"
  "max_extent [(3, 3, 3), (3, 3, 3), (3, 3, 3)] = 0"
  by (simp_all add: centered_def center_def translate_point_def max_extent_def extents_def)

theorem loadStudent_scale_match_witness:
  "scene example_baseline \<and> baselineGeometry example_baseline = Some 0 \<and>
   0 < length (heap example_baseline) \<and>
   heap example_baseline ! 0 = real_mesh [(- 1, - 1, 0), (1, - 1, 0), (1, 1, 0)] \<and>
   (\<exists>s'. loadStudent example_baseline (Inr (real_mesh [(0, 0, 0), (1, 0, 0), (1, 1 / 2, 0)]))
            = (s', Inr 1) \<and>
         heap s' ! 1 = real_mesh [(- 1, - (1 / 2), 0), (1, - (1 / 2), 0), (1, 1 / 2, 0)] \<and>
         computeMaxDimension (heap s' ! 1) = computeMaxDimension (heap s' ! 0)) \<and>
   (\<exists>s'. loadStudent example_baseline (Inr (real_mesh [(3, 3, 3), (3, 3, 3), (3, 3, 3)]))
            = (s', Inr 1) \<and>
         heap s' ! 1 = real_mesh [(0, 0, 0), (0, 0, 0), (0, 0, 0)] \<and>
         computeMaxDimension (heap s' ! 1) = Inr (Num 0))"
proof -
  have l: "scene example_baseline" "baselineGeometry example_baseline = Some 0"
    "0 < length (heap example_baseline)" "length (heap example_baseline) = 1"
    "heap example_baseline ! 0 = real_mesh [(- 1, - 1, 0), (1, - 1, 0), (1, 1, 0)]"
    by (simp_all add: example_baseline_def)
  show ?thesis
    using loadStudent_scale_match[of example_baseline 0 "[(- 1, - 1, 0), (1, - 1, 0), (1, 1, 0)]"
            "[(0, 0, 0), (1, 0, 0), (1, 1 / 2, 0)]"]
          loadStudent_scale_match[of example_baseline 0 "[(- 1, - 1, 0), (1, - 1, 0), (1, 1, 0)]"
            "[(3, 3, 3), (3, 3, 3), (3, 3, 3)]"] l
    by (auto simp: example_centered example_extents example_point_mesh scale_point_def)
qed

text \<open>
  The two example states are what the module produces.
\<close>

lemma example_baseline_loaded:
  "loadBaseline (initViewer module_loaded) (Inr (real_mesh [(0, 0, 0), (2, 0, 0), (2, 2, 0)]))
     = (example_baseline, Inr 0)"
  by (simp add: loadBaseline_def initViewer_def module_loaded_def new_object_def mutate_def
      centerGeometry_real center_def translate_point_def example_baseline_def)

lemma example_student_loaded:
  "loadStudent example_baseline (Inr (real_mesh [(0, 0, 0), (1, 0, 0), (1, 1 / 2, 0)]))
     = (example_loaded, Inr 1)"
proof -
  have l: "scene example_baseline" "baselineGeometry example_baseline = Some 0"
    "0 < length (heap example_baseline)" 
    "heap example_baseline ! 0 = real_mesh [(- 1, - 1, 0), (1, - 1, 0), (1, 1, 0)]"
    by (simp_all add: example_baseline_def)
  show ?thesis
    unfolding loadStudent_real[OF l]
    by (simp add: example_centered example_extents scale_point_def example_baseline_def
        example_loaded_def)
qed

section \<open>Stored geometry and the effective student mesh\<close>

lemma getNormalizedGeometries_loaded:
  assumes "baselineGeometry s = Some b" "studentGeometry s = Some a"
  shows "getNormalizedGeometries s
           = (s\<lparr>heap := heap s @ [geometry_applyMatrix4 (studentTransform s) (heap s ! a)]\<rparr>,
              Some \<lparr>baseline = b, student = length (heap s)\<rparr>)"
  using assms by (simp add: getNormalizedGeometries_def new_object_def mutate_def)

text \<open>
  Claim C9. No sequence of \<^verbatim>\<open>rotateStudent\<close> and \<^verbatim>\<open>resetStudentOrientation\<close> calls
  changes any stored geometry or the reference to the student geometry. Afterwards
  \<^verbatim>\<open>getNormalizedGeometries\<close> returns, as the student, a new object \<open>c\<close> different from
  the stored one: the store is the old store with one object appended, the stored
  student geometry with the current transform applied; the stored original is the
  same as before all the calls.
\<close>

theorem orientation_never_touches_vertices:
  "heap (orient_all calls s) = heap s \<and>
   studentGeometry (orient_all calls s) = studentGeometry s \<and>
   baselineGeometry (orient_all calls s) = baselineGeometry s \<and>
   baselineMesh (orient_all calls s) = baselineMesh s \<and>
   scene (orient_all calls s) = scene s \<and>
   map_option mesh_geometry (studentMesh (orient_all calls s))
     = map_option mesh_geometry (studentMesh s) \<and>
   (baselineGeometry s = Some b \<and> studentGeometry s = Some a \<and> a < length (heap s) \<longrightarrow>
      (\<exists>s' c. getNormalizedGeometries (orient_all calls s)
                 = (s', Some \<lparr>baseline = b, student = c\<rparr>) \<and>
              c \<noteq> a \<and> c = length (heap s) \<and>
              heap s' = heap s @ [geometry_applyMatrix4 (studentTransform (orient_all calls s))
                                    (heap s ! a)] \<and>
              heap s' ! a = heap s ! a \<and>
              studentGeometry s' = Some a))"
proof (intro conjI impI)
  show "heap (orient_all calls s) = heap s"
    and "studentGeometry (orient_all calls s) = studentGeometry s"
    and "baselineGeometry (orient_all calls s) = baselineGeometry s"
    and "baselineMesh (orient_all calls s) = baselineMesh s"
    and "scene (orient_all calls s) = scene s"
    and "map_option mesh_geometry (studentMesh (orient_all calls s))
     = map_option mesh_geometry (studentMesh s)"
    by (simp_all add: orient_all_frame)
next
  assume h: "baselineGeometry s = Some b \<and> studentGeometry s = Some a \<and> a < length (heap s)"
  let ?s1 = "orient_all calls s"
  have f: "heap ?s1 = heap s" "studentGeometry ?s1 = Some a" "baselineGeometry ?s1 = Some b"
    using h by (simp_all add: orient_all_frame)
  have g: "getNormalizedGeometries ?s1
           = (?s1\<lparr>heap := heap s @ [geometry_applyMatrix4 (studentTransform ?s1) (heap s ! a)]\<rparr>,
              Some \<lparr>baseline = b, student = length (heap s)\<rparr>)"
    using getNormalizedGeometries_loaded[OF f(3) f(2)] by (simp add: f)
  show "\<exists>s' c. getNormalizedGeometries ?s1 = (s', Some \<lparr>baseline = b, student = c\<rparr>) \<and>
              c \<noteq> a \<and> c = length (heap s) \<and>
              heap s' = heap s @ [geometry_applyMatrix4 (studentTransform ?s1) (heap s ! a)] \<and>
              heap s' ! a = heap s ! a \<and>
              studentGeometry s' = Some a"
    unfolding g using h f by (simp add: nth_append)
qed

theorem orientation_never_touches_vertices_witness:
  "baselineGeometry example_loaded = Some 0 \<and> studentGeometry example_loaded = Some 1 \<and>
   1 < length (heap example_loaded) \<and>
   heap (orient_all [Rotate ''x'' (Num 1), Reset, Rotate ''y'' (Num (- 1))] example_loaded)
     = heap example_loaded \<and>
   (\<exists>s'. getNormalizedGeometries
            (orient_all [Rotate ''x'' (Num 1), Reset, Rotate ''y'' (Num (- 1))] example_loaded)
          = (s', Some \<lparr>baseline = 0, student = 2\<rparr>) \<and>
         heap s' ! 1 = real_mesh [(- 1, - (1 / 2), 0), (1, - (1 / 2), 0), (1, 1 / 2, 0)])"
proof -
  have l: "baselineGeometry example_loaded = Some 0" "studentGeometry example_loaded = Some 1"
    "1 < length (heap example_loaded)" "length (heap example_loaded) = 2"
    "heap example_loaded ! 1 = real_mesh [(- 1, - (1 / 2), 0), (1, - (1 / 2), 0), (1, 1 / 2, 0)]"
    by (simp_all add: example_loaded_def)
  show ?thesis
    using orientation_never_touches_vertices
            [of "[Rotate ''x'' (Num 1), Reset, Rotate ''y'' (Num (- 1))]" example_loaded 0 1] l
    by auto
qed

section \<open>Invariants of the reachable states\<close>

lemma invariant_set_orientation:
  "finite_mat4 t \<Longrightarrow> studentMesh s \<noteq> None \<Longrightarrow> orientation_invariant (set_orientation t s)"
  by (auto simp: orientation_invariant_def set_orientation_def)

lemma invariant_rotate:
  assumes "orientation_invariant s"
  shows "orientation_invariant (rotateStudent axis direction s)"
proof (cases "studentMesh s = None \<or> studentGeometry s = None")
  case True
  then show ?thesis using assms by (simp add: rotateStudent_not_loaded)
next
  case False
  then have m: "studentMesh s \<noteq> None" by simp
  have f: "finite_mat4 (studentTransform s)"
    using assms by (simp add: orientation_invariant_def)
  show ?thesis
    using False assms
    by (simp add: rotateStudent_def Let_def invariant_set_orientation[OF _ m] finite_multiply[OF _ f]
        finite_quarter)
qed

lemma invariant_reset:
  "orientation_invariant s \<Longrightarrow> orientation_invariant (resetStudentOrientation s)"
  by (simp add: resetStudentOrientation_def invariant_set_orientation finite_identity)

lemma invariant_loadBaseline:
  "orientation_invariant s \<Longrightarrow> orientation_invariant (fst (loadBaseline s loaded))"
  by (auto simp: loadBaseline_def orientation_invariant_def new_object_def Let_def
      split: sum.splits)

lemma invariant_loadStudent:
  "orientation_invariant s \<Longrightarrow> orientation_invariant (fst (loadStudent s loaded))"
  by (auto simp: loadStudent_def orientation_invariant_def new_object_def Let_def finite_identity
      split: sum.splits option.splits)

lemma invariant_normalized:
  "orientation_invariant s \<Longrightarrow> orientation_invariant (fst (getNormalizedGeometries s))"
  by (auto simp: getNormalizedGeometries_def orientation_invariant_def new_object_def Let_def
      split: option.splits)

lemma reachable_orientation_invariant: "reachable s \<Longrightarrow> orientation_invariant s"
proof (induction rule: reachable.induct)
  case reachable_loaded
  show ?case by (simp add: orientation_invariant_def module_loaded_def finite_identity)
next
  case (reachable_init s)
  then show ?case by (simp add: orientation_invariant_def initViewer_def)
next
  case (reachable_baseline s loaded)
  then show ?case by (simp add: invariant_loadBaseline)
next
  case (reachable_student s loaded)
  then show ?case by (simp add: invariant_loadStudent)
next
  case (reachable_rotate s axis direction)
  then show ?case by (simp add: invariant_rotate)
next
  case (reachable_reset s)
  then show ?case by (simp add: invariant_reset)
next
  case (reachable_normalized s)
  then show ?case by (simp add: invariant_normalized)
qed

text \<open>
  In a reachable state the hypotheses of the orientation properties hold, so the
  properties hold outright.
\<close>

lemma reachable_turns_compose:
  assumes "reachable s"
  shows "studentTransform (rotateStudent ''x'' (Num 1) (rotateStudent ''x'' (Num 1)
           (rotateStudent ''x'' (Num 1) (rotateStudent ''x'' (Num 1)
             (resetStudentOrientation s))))) = identity"
    and "studentTransform (rotateStudent ''x'' (Num (- 1)) (rotateStudent ''x'' (Num 1) s))
           = studentTransform s"
    and "studentTransform (rotateStudent ''y'' (Num (- 1)) (rotateStudent ''y'' (Num 1) s))
           = studentTransform s"
proof -
  from assms have i: "orientation_invariant s" by (rule reachable_orientation_invariant)
  then have f: "finite_mat4 (studentTransform s)"
    and n: "studentMesh s = None \<Longrightarrow> studentTransform s = identity"
    by (simp_all add: orientation_invariant_def)
  show "studentTransform (rotateStudent ''x'' (Num 1) (rotateStudent ''x'' (Num 1)
           (rotateStudent ''x'' (Num 1) (rotateStudent ''x'' (Num 1)
             (resetStudentOrientation s))))) = identity"
    using four_turns_loaded[of s] four_turns_not_loaded[of s] n
    by (cases "studentMesh s = None") simp_all
  show "studentTransform (rotateStudent ''x'' (Num (- 1)) (rotateStudent ''x'' (Num 1) s))
           = studentTransform s"
    using rotate_pair_restores[OF f, of "''x''" 1] by simp
  show "studentTransform (rotateStudent ''y'' (Num (- 1)) (rotateStudent ''y'' (Num 1) s))
           = studentTransform s"
    using rotate_pair_restores[OF f, of "''y''" 1] by simp
qed

text \<open>
  With the mesh matrix in step with the transform, a rotation and its opposite restore
  the whole state, not only the transform.
\<close>

lemma set_orientation_twice:
  "set_orientation t (set_orientation u s) = set_orientation t s"
  by (simp add: set_orientation_def option.map_comp comp_def)

lemma set_orientation_same:
  assumes "orientation_invariant s"
  shows "set_orientation (studentTransform s) s = s"
proof (cases "studentMesh s")
  case None
  then show ?thesis by (simp add: set_orientation_def)
next
  case (Some m)
  with assms have "mesh_matrix m = studentTransform s"
    by (simp add: orientation_invariant_def)
  then have "m\<lparr>mesh_matrix := studentTransform s\<rparr> = m" by simp
  with Some show ?thesis by (simp add: set_orientation_def)
qed

lemma rotate_pair_restores_state:
  assumes "orientation_invariant s" "axis = ''x'' \<or> axis = ''y''" "d = 1 \<or> d = - 1"
  shows "rotateStudent axis (Num (- d)) (rotateStudent axis (Num d) s) = s"
proof (cases "studentMesh s = None \<or> studentGeometry s = None")
  case True
  then show ?thesis by (simp add: rotateStudent_not_loaded)
next
  case False
  then have m: "studentMesh s \<noteq> None" and g: "studentGeometry s \<noteq> None" by simp_all
  from assms(1) have f: "finite_mat4 (studentTransform s)"
    by (simp add: orientation_invariant_def)
  from assms(3) have d': "- d = 1 \<or> - d = - 1" by auto
  let ?s1 = "rotateStudent axis (Num d) s"
  have m1: "studentMesh ?s1 \<noteq> None" and g1: "studentGeometry ?s1 \<noteq> None"
    using m g by simp_all
  from assms(2) show ?thesis
  proof
    assume ax: "axis = ''x''"
    have 1: "?s1 = set_orientation (multiplyMatrices (quarter_turn_x d) (studentTransform s)) s"
      unfolding ax by (rule rotateStudent_loaded(1)[OF m g assms(3)])
    have "rotateStudent axis (Num (- d)) ?s1
        = set_orientation (multiplyMatrices (quarter_turn_x (- d)) (studentTransform ?s1)) ?s1"
      using rotateStudent_loaded(1)[OF m1 g1 d'] unfolding ax by simp
    also have "\<dots> = set_orientation (studentTransform s) s"
      unfolding 1 by (simp add: set_orientation_twice quarter_x_inverse[OF f assms(3)])
    finally show ?thesis by (simp add: set_orientation_same[OF assms(1)])
  next
    assume ax: "axis = ''y''"
    have 1: "?s1 = set_orientation (multiplyMatrices (quarter_turn_y d) (studentTransform s)) s"
      unfolding ax by (rule rotateStudent_loaded(2)[OF m g assms(3)])
    have "rotateStudent axis (Num (- d)) ?s1
        = set_orientation (multiplyMatrices (quarter_turn_y (- d)) (studentTransform ?s1)) ?s1"
      using rotateStudent_loaded(2)[OF m1 g1 d'] unfolding ax by simp
    also have "\<dots> = set_orientation (studentTransform s) s"
      unfolding 1 by (simp add: set_orientation_twice quarter_y_inverse[OF f assms(3)])
    finally show ?thesis by (simp add: set_orientation_same[OF assms(1)])
  qed
qed

lemma length_mutate [simp]: "length (mutate a f h) = length h"
  by (simp add: mutate_def)

lemma reachable_heap_invariant: "reachable s \<Longrightarrow> heap_invariant s"
proof (induction rule: reachable.induct)
  case reachable_loaded
  show ?case by (simp add: heap_invariant_def module_loaded_def)
next
  case (reachable_init s)
  then show ?case by (simp add: heap_invariant_def initViewer_def)
next
  case (reachable_baseline s loaded)
  then show ?case
    by (auto simp: loadBaseline_def heap_invariant_def new_object_def Let_def less_Suc_eq
        split: sum.splits)
next
  case (reachable_student s loaded)
  then show ?case
    by (auto simp: loadStudent_def heap_invariant_def new_object_def Let_def less_Suc_eq
        split: sum.splits option.splits)
next
  case (reachable_rotate s axis direction)
  then show ?case by (simp add: heap_invariant_def)
next
  case (reachable_reset s)
  then show ?case by (simp add: heap_invariant_def)
next
  case (reachable_normalized s)
  then show ?case
    by (auto simp: getNormalizedGeometries_def heap_invariant_def new_object_def Let_def
        less_Suc_eq split: option.splits)
qed

end
